theory Spec2Isabelle
  imports Main
begin

section \<open>Errors\<close>

text \<open>
  Go error values. The wrappers of \<^verbatim>\<open>github.com/pkg/errors\<close> and
  \<^verbatim>\<open>github.com/goph/emperror\<close> keep the wrapped error as their cause, so they are
  constructors holding it. \<open>External\<close> is an error value handed back by a system outside
  the repository (database driver, hosting service, YAML library), named by its message.
  The search key of \<^verbatim>\<open>findOneBy\<close> is an \<^verbatim>\<open>interface{}\<close> holding a cluster ID or a
  cluster name.
\<close>

datatype criteria = CritID nat | CritName string

datatype error =
    ErrRecordNotFound
  | External string
  | ErrorString string
  | clusterModelNotFoundError criteria nat
  | WithStack error
  | Wrap error string
  | WithContext error criteria nat

text \<open>\<^verbatim>\<open>errors.Cause\<close>: the innermost error of a chain of wrappers.\<close>

fun Cause :: "error \<Rightarrow> error" where
  "Cause (WithStack e) = Cause e"
| "Cause (Wrap e msg) = Cause e"
| "Cause (WithContext e c organizationID) = Cause e"
| "Cause e = e"

text \<open>
  Only \<^verbatim>\<open>clusterModelNotFoundError\<close> has the method \<^verbatim>\<open>NotFound() bool\<close> (it returns
  true); an error chain is a NotFound condition when its cause has it.
\<close>

fun NotFound :: "error \<Rightarrow> bool" where
  "NotFound e = (case Cause e of clusterModelNotFoundError c organizationID \<Rightarrow> True | _ \<Rightarrow> False)"

text \<open>\<^verbatim>\<open>gorm.IsRecordNotFoundError\<close>.\<close>

definition IsRecordNotFoundError :: "error \<Rightarrow> bool" where
  "IsRecordNotFoundError err = (err = ErrRecordNotFound)"

text \<open>
  A Go call either returns (a value or an error) or panics; a panic is not an error value
  and no \<^verbatim>\<open>if err != nil\<close> of a caller sees it.
\<close>

datatype 'a result = Ok 'a | Err error | Panic string

section \<open>Cluster repository (package cluster)\<close>

text \<open>
  Modelled from the spec: the type \<^verbatim>\<open>model.ClusterModel\<close> is declared in package
  \<^verbatim>\<open>model\<close>, outside the files modelled here. The spec's ClusterRecord has an
  organization ID, a numeric ID, a name, a provider discriminator, a provider configuration
  blob and a soft-delete timestamp; the queries of the repository add the column
  \<^verbatim>\<open>secret_id\<close>. Go's \<^verbatim>\<open>uint\<close> identifiers are only compared, never computed with, so
  they are naturals.
\<close>

record ClusterModel =
  cm_ID :: nat
  cm_Name :: string
  cm_OrganizationId :: nat
  cm_SecretId :: string
  cm_Cloud :: string
  cm_Config :: string
  cm_DeletedAt :: "nat option"

text \<open>
  The database handle \<^verbatim>\<open>*gorm.DB\<close> as the repository sees it: the rows of the cluster
  table, and the driver error of the next query, if it fails.
\<close>

record Clusters =
  db_rows :: "ClusterModel list"
  db_fault :: "error option"

text \<open>
  The library calls \<^verbatim>\<open>db.First(&out, conds)\<close> and \<^verbatim>\<open>db.Find(&outs, conds)\<close>, for a
  condition on the columns. Soft-deleted rows are never matched. \<open>First\<close> orders by
  primary key and takes one row, and reports \<open>ErrRecordNotFound\<close> when there is none;
  \<open>Find\<close> into a slice returns every matching row and an empty slice is no error.
\<close>

fun least_by :: "('r \<Rightarrow> nat) \<Rightarrow> 'r list \<Rightarrow> 'r option" where
  "least_by key [] = None"
| "least_by key (r # rs) =
     (case least_by key rs of
        None \<Rightarrow> Some r
      | Some r' \<Rightarrow> if key r \<le> key r' then Some r else Some r')"

definition live :: "ClusterModel \<Rightarrow> bool" where
  "live r = (cm_DeletedAt r = None)"

definition gorm_First :: "Clusters \<Rightarrow> (ClusterModel \<Rightarrow> bool) \<Rightarrow> error + ClusterModel" where
  "gorm_First db cond =
     (case db_fault db of
        Some e \<Rightarrow> Inl e
      | None \<Rightarrow>
          (case least_by cm_ID (filter (\<lambda>r. live r \<and> cond r) (db_rows db)) of
             None \<Rightarrow> Inl ErrRecordNotFound
           | Some r \<Rightarrow> Inr r))"

definition gorm_Find :: "Clusters \<Rightarrow> (ClusterModel \<Rightarrow> bool) \<Rightarrow> error + ClusterModel list" where
  "gorm_Find db cond =
     (case db_fault db of
        Some e \<Rightarrow> Inl e
      | None \<Rightarrow> Inr (filter (\<lambda>r. live r \<and> cond r) (db_rows db)))"

text \<open>\<^verbatim>\<open>Clusters.Exists\<close>: the pair of the Go return values.\<close>

definition Exists :: "Clusters \<Rightarrow> nat \<Rightarrow> string \<Rightarrow> bool \<times> error option" where
  "Exists c organizationID name =
     (case gorm_First c (\<lambda>r. cm_Name r = name \<and> cm_OrganizationId r = organizationID) of
        Inl err \<Rightarrow>
          if IsRecordNotFoundError err then (False, None)
          else (False, Some (Wrap err ''could not check cluster existence''))
      | Inr existingCluster \<Rightarrow> (cm_ID existingCluster = 0, None))"

definition All :: "Clusters \<Rightarrow> error + ClusterModel list" where
  "All c =
     (case gorm_Find c (\<lambda>r. True) of
        Inl err \<Rightarrow> Inl (Wrap err ''could not fetch clusters'')
      | Inr clusters \<Rightarrow> Inr clusters)"

definition FindByOrganization :: "Clusters \<Rightarrow> nat \<Rightarrow> error + ClusterModel list" where
  "FindByOrganization c organizationID =
     (case gorm_Find c (\<lambda>r. cm_OrganizationId r = organizationID) of
        Inl err \<Rightarrow> Inl (Wrap err ''could not fetch clusters'')
      | Inr clusters \<Rightarrow> Inr clusters)"

definition FindBySecret :: "Clusters \<Rightarrow> nat \<Rightarrow> string \<Rightarrow> error + ClusterModel list" where
  "FindBySecret c organizationID secretID =
     (case gorm_Find c (\<lambda>r. cm_OrganizationId r = organizationID \<and> cm_SecretId r = secretID) of
        Inl err \<Rightarrow> Inl (Wrap err ''could not fetch clusters'')
      | Inr clusters \<Rightarrow> Inr clusters)"

text \<open>The column condition \<^verbatim>\<open>{field: criteria}\<close> of \<^verbatim>\<open>findOneBy\<close>.\<close>

fun field_is :: "string \<Rightarrow> criteria \<Rightarrow> ClusterModel \<Rightarrow> bool" where
  "field_is field (CritID clusterID) r = (field = ''id'' \<and> cm_ID r = clusterID)"
| "field_is field (CritName clusterName) r = (field = ''name'' \<and> cm_Name r = clusterName)"

definition findOneBy :: "Clusters \<Rightarrow> nat \<Rightarrow> string \<Rightarrow> criteria \<Rightarrow> error + ClusterModel" where
  "findOneBy c organizationID field crit =
     (case gorm_First c (\<lambda>r. field_is field crit r \<and> cm_OrganizationId r = organizationID) of
        Inl err \<Rightarrow>
          if IsRecordNotFoundError err then
            Inl (WithStack (clusterModelNotFoundError crit organizationID))
          else
            Inl (WithContext (Wrap err (''could not get cluster by '' @ field)) crit organizationID)
      | Inr cluster \<Rightarrow> Inr cluster)"

definition FindOneByID :: "Clusters \<Rightarrow> nat \<Rightarrow> nat \<Rightarrow> error + ClusterModel" where
  "FindOneByID c organizationID clusterID = findOneBy c organizationID ''id'' (CritID clusterID)"

definition FindOneByName :: "Clusters \<Rightarrow> nat \<Rightarrow> string \<Rightarrow> error + ClusterModel" where
  "FindOneByName c organizationID clusterName =
     findOneBy c organizationID ''name'' (CritName clusterName)"

section \<open>Cluster manager (package cluster)\<close>

text \<open>
  The factory \<^verbatim>\<open>GetCommonClusterFromModel\<close> is declared in another file of the
  package: it is a parameter \<open>factory\<close>, from a record to an error or a handle of any type \<open>'c\<close>.
  Logging has no effect on what the manager returns and is left out.
\<close>

text \<open>The loop of \<^verbatim>\<open>getClustersFromModels\<close>, with the slice it appends to.\<close>

fun getClustersLoop ::
  "(ClusterModel \<Rightarrow> error + 'c) \<Rightarrow> ClusterModel list \<Rightarrow> 'c list \<Rightarrow> 'c list" where
  "getClustersLoop factory [] clusters = clusters"
| "getClustersLoop factory (clusterModel # clusterModels) clusters =
     (case factory clusterModel of
        Inl err \<Rightarrow> getClustersLoop factory clusterModels clusters
      | Inr cluster \<Rightarrow> getClustersLoop factory clusterModels (clusters @ [cluster]))"

definition getClustersFromModels ::
  "(ClusterModel \<Rightarrow> error + 'c) \<Rightarrow> ClusterModel list \<Rightarrow> 'c list" where
  "getClustersFromModels factory clusterModels = getClustersLoop factory clusterModels []"

text \<open>\<^verbatim>\<open>GetClusters\<close> has the same loop written out in its body.\<close>

definition GetClusters ::
  "Clusters \<Rightarrow> (ClusterModel \<Rightarrow> error + 'c) \<Rightarrow> nat \<Rightarrow> error + 'c list" where
  "GetClusters c factory organizationID =
     (case FindByOrganization c organizationID of
        Inl err \<Rightarrow> Inl err
      | Inr clusterModels \<Rightarrow> Inr (getClustersLoop factory clusterModels []))"

definition GetAllClusters :: "Clusters \<Rightarrow> (ClusterModel \<Rightarrow> error + 'c) \<Rightarrow> error + 'c list" where
  "GetAllClusters c factory =
     (case All c of
        Inl err \<Rightarrow> Inl err
      | Inr clusterModels \<Rightarrow> Inr (getClustersFromModels factory clusterModels))"

definition GetClustersBySecretID ::
  "Clusters \<Rightarrow> (ClusterModel \<Rightarrow> error + 'c) \<Rightarrow> nat \<Rightarrow> string \<Rightarrow> error + 'c list" where
  "GetClustersBySecretID c factory organizationID secretID =
     (case FindBySecret c organizationID secretID of
        Inl err \<Rightarrow> Inl (Wrap err ''could not get cluster from database'')
      | Inr clusterModels \<Rightarrow> Inr (getClustersFromModels factory clusterModels))"

definition GetClusterByID ::
  "Clusters \<Rightarrow> (ClusterModel \<Rightarrow> error + 'c) \<Rightarrow> nat \<Rightarrow> nat \<Rightarrow> error + 'c" where
  "GetClusterByID c factory organizationID clusterID =
     (case FindOneByID c organizationID clusterID of
        Inl err \<Rightarrow> Inl (Wrap err ''could not get cluster from database'')
      | Inr clusterModel \<Rightarrow>
          (case factory clusterModel of
             Inl err \<Rightarrow> Inl (Wrap err ''could not get cluster from model'')
           | Inr cluster \<Rightarrow> Inr cluster))"

definition GetClusterByName ::
  "Clusters \<Rightarrow> (ClusterModel \<Rightarrow> error + 'c) \<Rightarrow> nat \<Rightarrow> string \<Rightarrow> error + 'c" where
  "GetClusterByName c factory organizationID clusterName =
     (case FindOneByName c organizationID clusterName of
        Inl err \<Rightarrow> Inl (Wrap err ''could not get cluster from database'')
      | Inr clusterModel \<Rightarrow>
          (case factory clusterModel of
             Inl err \<Rightarrow> Inl (Wrap err ''could not get cluster from model'')
           | Inr cluster \<Rightarrow> Inr cluster))"

text \<open>The handles of the records the factory resolves, in the order of the records.\<close>

definition resolvable :: "(ClusterModel \<Rightarrow> error + 'c) \<Rightarrow> ClusterModel list \<Rightarrow> 'c list" where
  "resolvable factory clusterModels =
     List.map_filter (\<lambda>m. case factory m of Inl err \<Rightarrow> None | Inr cluster \<Rightarrow> Some cluster)
       clusterModels"

subsection \<open>A small cluster table for the examples\<close>

text \<open>
  A factory that knows one provider, and a table of four live records: three of
  organization 7 (the second with an unknown provider) and one of organization 8.
\<close>

definition ex_factory :: "ClusterModel \<Rightarrow> error + string" where
  "ex_factory m =
     (if cm_Cloud m = ''amazon'' then Inr (''eks:'' @ cm_Name m)
      else Inl (ErrorString ''unsupported provider''))"

definition ex_row :: "nat \<Rightarrow> string \<Rightarrow> nat \<Rightarrow> string \<Rightarrow> ClusterModel" where
  "ex_row i n org cloud =
     \<lparr>cm_ID = i, cm_Name = n, cm_OrganizationId = org, cm_SecretId = ''s1'',
      cm_Cloud = cloud, cm_Config = [], cm_DeletedAt = None\<rparr>"

definition ex_clusters :: Clusters where
  "ex_clusters =
     \<lparr>db_rows = [ex_row 1 ''a'' 7 ''amazon'', ex_row 2 ''b'' 7 ''bogus'',
                 ex_row 3 ''c'' 7 ''amazon'', ex_row 4 ''d'' 8 ''amazon''],
      db_fault = None\<rparr>"

section \<open>Template content (package spotguide)\<close>

definition SpotguideGithubTopic :: string where
  "SpotguideGithubTopic = ''spotguide''"

definition SpotguideGithubOrganization :: string where
  "SpotguideGithubOrganization = ''banzaicloud''"

definition SpotguideYAMLPath :: string where
  "SpotguideYAMLPath = ''.banzaicloud/spotguide.yaml''"

definition PipelineYAMLPath :: string where
  "PipelineYAMLPath = ''.banzaicloud/pipeline.yaml''"

subsection \<open>The standard library's string splitting\<close>

text \<open>
  Go strings and byte slices are byte sequences, as \<open>string\<close> is. \<^verbatim>\<open>strings.SplitN(s, sep, n)\<close>
  for a separator of one byte and \<open>n \<ge> 0\<close>: no piece for \<open>n = 0\<close>; otherwise it cuts at
  the first \<open>n - 1\<close> separators and the rest of the string is the last piece.
  \<^verbatim>\<open>strings.Split(s, sep)\<close> cuts at every separator.
\<close>

fun SplitN :: "string \<Rightarrow> char \<Rightarrow> nat \<Rightarrow> string list" where
  "SplitN s sep 0 = []"
| "SplitN s sep (Suc 0) = [s]"
| "SplitN s sep (Suc (Suc n)) =
     (if sep \<in> set s then
        takeWhile (\<lambda>x. x \<noteq> sep) s # SplitN (drop 1 (dropWhile (\<lambda>x. x \<noteq> sep) s)) sep (Suc n)
      else [s])"

fun Split :: "string \<Rightarrow> char \<Rightarrow> string list" where
  "Split [] sep = [[]]"
| "Split (x # xs) sep =
     (if x = sep then [] # Split xs sep
      else (case Split xs sep of [] \<Rightarrow> [[x]] | p # ps \<Rightarrow> (x # p) # ps))"

subsection \<open>Requests, archives and tree entries\<close>

text \<open>
  Modelled from the spec: \<^verbatim>\<open>secret.CreateSecretRequest\<close> is declared in package
  \<^verbatim>\<open>secret\<close>, outside the files modelled here; the source reads its \<open>Name\<close> and appends to its \<open>Tags\<close>.
\<close>

record CreateSecretRequest =
  sr_Name :: string
  sr_Type :: string
  sr_Values :: "(string \<times> string) list"
  sr_Tags :: "string list"

record LaunchRequest =
  SpotguideName :: string
  RepoOrganization :: string
  RepoName :: string
  Secrets :: "CreateSecretRequest list"

definition RepoFullname :: "LaunchRequest \<Rightarrow> string" where
  "RepoFullname r = RepoOrganization r @ ''/'' @ RepoName r"

text \<open>
  The persisted columns of \<^verbatim>\<open>Repo\<close> (table \<^verbatim>\<open>spotguide_repos\<close>); the decoded field
  \<^verbatim>\<open>Spotguide\<close> is not a column (\<^verbatim>\<open>gorm:"-"\<close>). A time is a natural, 0 the zero time.
  The byte slice \<^verbatim>\<open>SpotguideRaw\<close> is \<open>None\<close> when it is nil (a NULL column) and \<open>Some\<close> of
  its bytes otherwise: an empty slice that is not nil is \<open>Some []\<close>, and is not the zero
  value of the field.
\<close>

record Repo =
  repo_ID :: nat
  repo_CreatedAt :: nat
  repo_UpdatedAt :: nat
  repo_DeletedAt :: "nat option"
  repo_Name :: string
  repo_Icon :: string
  repo_SpotguideRaw :: "string option"

text \<open>
  The hook \<^verbatim>\<open>Repo.AfterFind\<close>, which the database library calls on a row it has read into
  a \<^verbatim>\<open>Repo\<close>: it decodes the manifest bytes with the YAML library. Only the error of the
  decoding is used by the functions modelled here, so the library's
  \<^verbatim>\<open>yaml.Unmarshal(raw, &s.Spotguide)\<close> is a parameter from the bytes to its error, if any;
  a nil slice is read as no bytes.
\<close>

definition AfterFind :: "(string \<Rightarrow> error option) \<Rightarrow> Repo \<Rightarrow> error option" where
  "AfterFind unmarshal s =
     unmarshal (case repo_SpotguideRaw s of None \<Rightarrow> [] | Some raw \<Rightarrow> raw)"

text \<open>
  An entry \<^verbatim>\<open>*zip.File\<close> of the archive: its name, whether its mode says directory, and
  what \<^verbatim>\<open>zf.Open()\<close> followed by \<^verbatim>\<open>ioutil.ReadAll\<close> gives (the source wraps the error
  of either with the same message).
\<close>

record zip_File =
  zf_Name :: string
  zf_IsDir :: bool
  zf_Read :: "error + string"

record TreeEntry =
  te_Type :: string
  te_Path :: string
  te_Content :: string
  te_Mode :: string

subsection \<open>The pipeline descriptor\<close>

text \<open>
  Modelled from the spec: the type \<^verbatim>\<open>droneRepoConfig\<close> is declared in another file
  of the package. The spec has a pipeline of steps, each with a list of secret names, and has the
  names injected into every step, so the steps are held by reference and the append of
  \<^verbatim>\<open>droneRepoConfigSecrets\<close> reaches the document.
\<close>

record plugin =
  plugin_Secrets :: "string list"

record droneRepoConfig =
  Pipeline :: "(string \<times> plugin) list"

text \<open>The YAML library (\<^verbatim>\<open>github.com/ghodss/yaml\<close>), for the descriptor type.\<close>

record yaml =
  Unmarshal :: "string \<Rightarrow> error + droneRepoConfig"
  Marshal :: "droneRepoConfig \<Rightarrow> error + string"

text \<open>The inner loop of \<^verbatim>\<open>droneRepoConfigSecrets\<close>, over the request's secrets.\<close>

fun appendSecrets :: "plugin \<Rightarrow> CreateSecretRequest list \<Rightarrow> plugin" where
  "appendSecrets p [] = p"
| "appendSecrets p (secret # secrets) =
     appendSecrets (p\<lparr>plugin_Secrets := plugin_Secrets p @ [sr_Name secret]\<rparr>) secrets"

definition droneRepoConfigSecrets :: "LaunchRequest \<Rightarrow> droneRepoConfig \<Rightarrow> droneRepoConfig" where
  "droneRepoConfigSecrets request repoConfig =
     (if length (Secrets request) = 0 then repoConfig
      else repoConfig\<lparr>Pipeline :=
             map (\<lambda>(name, p). (name, appendSecrets p (Secrets request))) (Pipeline repoConfig)\<rparr>)"

definition createDroneRepoConfig :: "yaml \<Rightarrow> string \<Rightarrow> LaunchRequest \<Rightarrow> error + droneRepoConfig" where
  "createDroneRepoConfig y initConfig request =
     (case Unmarshal y initConfig of
        Inl err \<Rightarrow> Inl err
      | Inr repoConfig \<Rightarrow> Inr (droneRepoConfigSecrets request repoConfig))"

definition preparePipelineYAML :: "yaml \<Rightarrow> LaunchRequest \<Rightarrow> Repo \<Rightarrow> string \<Rightarrow> error + string" where
  "preparePipelineYAML y request sourceRepo pipelineYAML =
     (case createDroneRepoConfig y pipelineYAML request of
        Inl err \<Rightarrow> Inl (Wrap err ''failed to initialize repo config'')
      | Inr repoConfig \<Rightarrow>
          (case Marshal y repoConfig of
             Inl err \<Rightarrow> Inl (Wrap err ''failed to marshal repo config'')
           | Inr repoConfigRaw \<Rightarrow> Inr repoConfigRaw))"

subsection \<open>The loop of \<^verbatim>\<open>getSpotguideContent\<close> over the archive\<close>

definition blob :: "string \<Rightarrow> string \<Rightarrow> TreeEntry" where
  "blob path content =
     \<lparr>te_Type = ''blob'', te_Path = path, te_Content = content, te_Mode = ''100644''\<rparr>"

text \<open>
  The index expression \<^verbatim>\<open>strings.SplitN(zf.Name, "/", 2)[1]\<close> panics when the slice has
  fewer than two elements.
\<close>

fun contentLoop ::
  "yaml \<Rightarrow> LaunchRequest \<Rightarrow> Repo \<Rightarrow> zip_File list \<Rightarrow> TreeEntry list \<Rightarrow> TreeEntry list result" where
  "contentLoop y request sourceRepo [] entries = Ok entries"
| "contentLoop y request sourceRepo (zf # zfs) entries =
     (if zf_IsDir zf then contentLoop y request sourceRepo zfs entries
      else
        (case zf_Read zf of
           Inl err \<Rightarrow> Err (Wrap err ''failed to extract source spotguide repository release'')
         | Inr content \<Rightarrow>
             (let parts = SplitN (zf_Name zf) (CHR ''/'') 2 in
              if length parts \<le> 1 then Panic ''index out of range [1]''
              else
                (let path = parts ! 1 in
                 if path = PipelineYAMLPath @ ''disabled'' then
                   (case preparePipelineYAML y request sourceRepo content of
                      Inl err \<Rightarrow> Err (Wrap err ''failed to prepare pipeline.yaml'')
                    | Inr content' \<Rightarrow>
                        contentLoop y request sourceRepo zfs (entries @ [blob path content']))
                 else contentLoop y request sourceRepo zfs (entries @ [blob path content])))))"

definition treeEntries ::
  "yaml \<Rightarrow> LaunchRequest \<Rightarrow> Repo \<Rightarrow> zip_File list \<Rightarrow> TreeEntry list result" where
  "treeEntries y request sourceRepo files = contentLoop y request sourceRepo files []"

subsection \<open>Notions for stating what the loop returns\<close>

text \<open>The file entries of an archive, and a name without its first segment and slash.\<close>

definition fileEntries :: "zip_File list \<Rightarrow> zip_File list" where
  "fileEntries files = filter (\<lambda>zf. \<not> zf_IsDir zf) files"

definition afterFirstSlash :: "string \<Rightarrow> string" where
  "afterFirstSlash name = drop 1 (dropWhile (\<lambda>x. x \<noteq> CHR ''/'') name)"

text \<open>
  The tree entry \<open>e\<close> is what the loop appends for the file entry \<open>zf\<close>: a blob at the
  stripped path, holding the entry's bytes, or for the one path the loop rewrites what
  \<open>preparePipelineYAML\<close> makes of them.
\<close>

definition materialized :: "yaml \<Rightarrow> LaunchRequest \<Rightarrow> Repo \<Rightarrow> zip_File \<Rightarrow> TreeEntry \<Rightarrow> bool" where
  "materialized y request sourceRepo zf e =
     (CHR ''/'' \<in> set (zf_Name zf) \<and>
      te_Path e = afterFirstSlash (zf_Name zf) \<and> te_Type e = ''blob'' \<and> te_Mode e = ''100644'' \<and>
      (if te_Path e = PipelineYAMLPath @ ''disabled'' then
         (\<exists>content. zf_Read zf = Inr content \<and>
            preparePipelineYAML y request sourceRepo content = Inr (te_Content e))
       else zf_Read zf = Inr (te_Content e)))"

text \<open>What the descriptor rewriting adds to a step: the names of the secrets, in order.\<close>

definition withSecrets :: "string list \<Rightarrow> droneRepoConfig \<Rightarrow> droneRepoConfig" where
  "withSecrets names repoConfig =
     repoConfig\<lparr>Pipeline :=
       map (\<lambda>(name, p). (name, p\<lparr>plugin_Secrets := plugin_Secrets p @ names\<rparr>))
         (Pipeline repoConfig)\<rparr>"

subsection \<open>A small archive for the examples\<close>

text \<open>
  A stand-in for the YAML library on a toy format: a document is the name of its one
  step, and is written back as the name followed by the step's secrets.
\<close>

definition toy_yaml :: yaml where
  "toy_yaml =
     \<lparr>Unmarshal = (\<lambda>s. Inr \<lparr>Pipeline = [(s, \<lparr>plugin_Secrets = []\<rparr>)]\<rparr>),
      Marshal = (\<lambda>c. Inr (concat (map (\<lambda>(name, p). name @ '' secrets:'' @
                   concat (map (\<lambda>s. '' '' @ s) (plugin_Secrets p))) (Pipeline c))))\<rparr>"

definition ex_request :: LaunchRequest where
  "ex_request =
     \<lparr>SpotguideName = ''org/template-a'', RepoOrganization = ''acme'', RepoName = ''proj1'',
      Secrets = [\<lparr>sr_Name = ''DB_PASS'', sr_Type = ''password'', sr_Values = [], sr_Tags = []\<rparr>]\<rparr>"

definition ex_sourceRepo :: Repo where
  "ex_sourceRepo =
     \<lparr>repo_ID = 1, repo_CreatedAt = 1, repo_UpdatedAt = 1, repo_DeletedAt = None,
      repo_Name = ''org/template-a'', repo_Icon = [], repo_SpotguideRaw = Some ''name: a''\<rparr>"

definition ex_file :: "string \<Rightarrow> string \<Rightarrow> zip_File" where
  "ex_file name content = \<lparr>zf_Name = name, zf_IsDir = False, zf_Read = Inr content\<rparr>"

definition ex_dir :: "string \<Rightarrow> zip_File" where
  "ex_dir name = \<lparr>zf_Name = name, zf_IsDir = True, zf_Read = Inr []\<rparr>"

definition ex_archive :: "zip_File list" where
  "ex_archive =
     [ex_dir ''X/'', ex_dir ''X/a/'', ex_file ''X/a/b.txt'' ''hello'',
      ex_file ''X/README.md'' ''# readme'']"

definition ex_pipeline_archive :: "zip_File list" where
  "ex_pipeline_archive =
     [ex_dir ''X/'', ex_file ''X/.banzaicloud/pipeline.yaml'' ''build'',
      ex_file ''X/.banzaicloud/pipeline.yamldisabled'' ''build'',
      ex_file ''X/main.go'' ''package main'']"

section \<open>The catalog and its scraper (package spotguide)\<close>

subsection \<open>The library's \<^verbatim>\<open>Where(&m).Assign(&m).FirstOrCreate(&Repo{})\<close>\<close>

text \<open>
  The table \<^verbatim>\<open>spotguide_repos\<close> is the list of its rows. The calls of the library
  (\<^verbatim>\<open>github.com/jinzhu/gorm\<close>) follow its documented behaviour. A struct given to
  \<^verbatim>\<open>Where\<close> is a condition on its non-zero fields only, one equality per field, and a
  soft-deleted row never matches. A struct given to \<^verbatim>\<open>Assign\<close> sets its non-zero
  fields. A field is zero when it is 0, the zero time, the empty string, a nil pointer or a
  nil slice; an empty slice that is not nil is not zero.

  \<^verbatim>\<open>First\<close> runs the query, takes the matching row of least primary key, reads it into
  the \<^verbatim>\<open>Repo\<close> it is given and calls the hook \<^verbatim>\<open>AfterFind\<close> on it; its error is the
  driver's, \<open>ErrRecordNotFound\<close> when no row matches, or the hook's.
  \<^verbatim>\<open>FirstOrCreate\<close> calls \<^verbatim>\<open>First\<close>. On an error that is not record-not-found it
  returns the error and writes nothing. On a row it updates the row with the assigned
  fields, setting \<^verbatim>\<open>UpdatedAt\<close>. On record-not-found it inserts a row built from the
  condition and the assigned fields, with the next primary key and both timestamps set
  where they are zero; the hook does not run on an inserted row. The clock of a run is the
  parameter \<open>now\<close>, and the driver error of a query, if it fails, is given by \<open>fault\<close>.
\<close>

definition where_struct :: "Repo \<Rightarrow> Repo \<Rightarrow> bool" where
  "where_struct m r =
     ((repo_ID m = 0 \<or> repo_ID r = repo_ID m) \<and>
      (repo_CreatedAt m = 0 \<or> repo_CreatedAt r = repo_CreatedAt m) \<and>
      (repo_UpdatedAt m = 0 \<or> repo_UpdatedAt r = repo_UpdatedAt m) \<and>
      (repo_DeletedAt m = None \<or> repo_DeletedAt r = repo_DeletedAt m) \<and>
      (repo_Name m = [] \<or> repo_Name r = repo_Name m) \<and>
      (repo_Icon m = [] \<or> repo_Icon r = repo_Icon m) \<and>
      (repo_SpotguideRaw m = None \<or> repo_SpotguideRaw r = repo_SpotguideRaw m) \<and>
      repo_DeletedAt r = None)"

definition assign_struct :: "Repo \<Rightarrow> Repo \<Rightarrow> Repo" where
  "assign_struct m r =
     \<lparr>repo_ID = (if repo_ID m = 0 then repo_ID r else repo_ID m),
      repo_CreatedAt = (if repo_CreatedAt m = 0 then repo_CreatedAt r else repo_CreatedAt m),
      repo_UpdatedAt = (if repo_UpdatedAt m = 0 then repo_UpdatedAt r else repo_UpdatedAt m),
      repo_DeletedAt = (if repo_DeletedAt m = None then repo_DeletedAt r else repo_DeletedAt m),
      repo_Name = (if repo_Name m = [] then repo_Name r else repo_Name m),
      repo_Icon = (if repo_Icon m = [] then repo_Icon r else repo_Icon m),
      repo_SpotguideRaw =
        (if repo_SpotguideRaw m = None then repo_SpotguideRaw r else repo_SpotguideRaw m)\<rparr>"

definition zero_Repo :: Repo where
  "zero_Repo =
     \<lparr>repo_ID = 0, repo_CreatedAt = 0, repo_UpdatedAt = 0, repo_DeletedAt = None,
      repo_Name = [], repo_Icon = [], repo_SpotguideRaw = None\<rparr>"

definition next_ID :: "Repo list \<Rightarrow> nat" where
  "next_ID rows = Suc (fold max (map repo_ID rows) 0)"

definition created :: "nat \<Rightarrow> Repo list \<Rightarrow> Repo \<Rightarrow> Repo" where
  "created now rows r =
     r\<lparr>repo_ID := (if repo_ID r = 0 then next_ID rows else repo_ID r),
       repo_CreatedAt := (if repo_CreatedAt r = 0 then now else repo_CreatedAt r),
       repo_UpdatedAt := (if repo_UpdatedAt r = 0 then now else repo_UpdatedAt r)\<rparr>"

definition updated :: "nat \<Rightarrow> Repo \<Rightarrow> Repo \<Rightarrow> Repo" where
  "updated now assigned r =
     (if assigned = zero_Repo then r else (assign_struct assigned r)\<lparr>repo_UpdatedAt := now\<rparr>)"

definition Where_First ::
  "(string \<Rightarrow> error option) \<Rightarrow> (Repo \<Rightarrow> error option) \<Rightarrow> Repo \<Rightarrow> Repo list \<Rightarrow> error + Repo" where
  "Where_First unmarshal fault cond rows =
     (case fault cond of
        Some err \<Rightarrow> Inl err
      | None \<Rightarrow>
          (case least_by repo_ID (filter (where_struct cond) rows) of
             None \<Rightarrow> Inl ErrRecordNotFound
           | Some found \<Rightarrow>
               (case AfterFind unmarshal found of
                  Some err \<Rightarrow> Inl err
                | None \<Rightarrow> Inr found)))"

definition FirstOrCreate ::
  "(string \<Rightarrow> error option) \<Rightarrow> (Repo \<Rightarrow> error option) \<Rightarrow> nat \<Rightarrow> Repo \<Rightarrow> Repo \<Rightarrow> Repo list \<Rightarrow>
   error option \<times> Repo list" where
  "FirstOrCreate unmarshal fault now cond assigned rows =
     (case Where_First unmarshal fault cond rows of
        Inl err \<Rightarrow>
          if IsRecordNotFoundError err then
            (None, rows @ [created now rows (assign_struct assigned (assign_struct cond zero_Repo))])
          else (Some err, rows)
      | Inr found \<Rightarrow>
          (None, map (\<lambda>r. if repo_ID r = repo_ID found then updated now assigned r else r) rows))"

subsection \<open>The hosting service as the scraper reads it\<close>

text \<open>
  A repository as the listing returns it (the getters give the empty string for a missing
  field). \<open>ListByOrg\<close> gives, for an organization and a page, the repositories of the page
  and the number of the next page (0 when there is none); \<open>DownloadContents\<close> gives the
  bytes of a file (\<^verbatim>\<open>downloadGithubFile\<close>: the download, then \<^verbatim>\<open>ioutil.ReadAll\<close>).
\<close>

record github_Repository =
  gr_Owner_Login :: string
  gr_Name :: string
  gr_FullName :: string
  gr_Topics :: "string list"

record upstream =
  ListByOrg :: "string \<Rightarrow> nat \<Rightarrow> error + (github_Repository list \<times> nat)"
  DownloadContents :: "string \<Rightarrow> string \<Rightarrow> string \<Rightarrow> error + string"

subsection \<open>\<^verbatim>\<open>ScrapeSpotguides\<close>\<close>

text \<open>
  The pagination loop runs until a page reports no next page; nothing bounds it, so it is
  a partial function, \<open>None\<close> when it never returns.
\<close>

partial_function (option) listRepositories ::
  "(nat \<Rightarrow> error + (github_Repository list \<times> nat)) \<Rightarrow> nat \<Rightarrow> github_Repository list \<Rightarrow>
   (error + github_Repository list) option" where
  "listRepositories list page allRepositories =
     (case list page of
        Inl err \<Rightarrow> Some (Inl (Wrap err ''failed to list github repositories''))
      | Inr (repositories, nextPage) \<Rightarrow>
          if nextPage = 0 then Some (Inr (allRepositories @ repositories))
          else listRepositories list nextPage (allRepositories @ repositories))"

text \<open>
  The struct literal \<^verbatim>\<open>Repo{Name: ..., SpotguideRaw: ...}\<close>: every other field zero. The
  bytes come from \<^verbatim>\<open>ioutil.ReadAll\<close>, which returns a slice that is not nil also for an
  empty file.
\<close>

definition scrapeModel :: "string \<Rightarrow> string \<Rightarrow> Repo" where
  "scrapeModel name spotguideRaw =
     zero_Repo\<lparr>repo_Name := name, repo_SpotguideRaw := Some spotguideRaw\<rparr>"

text \<open>The loop over a repository's topics: the first template topic is handled, then \<^verbatim>\<open>break\<close>.\<close>

fun topicLoop ::
  "upstream \<Rightarrow> (string \<Rightarrow> error option) \<Rightarrow> (Repo \<Rightarrow> error option) \<Rightarrow> nat \<Rightarrow>
   github_Repository \<Rightarrow> string list \<Rightarrow> Repo list \<Rightarrow> error option \<times> Repo list" where
  "topicLoop up unmarshal fault now repository [] rows = (None, rows)"
| "topicLoop up unmarshal fault now repository (topic # topics) rows =
     (if topic = SpotguideGithubTopic then
        (case DownloadContents up (gr_Owner_Login repository) (gr_Name repository)
                SpotguideYAMLPath of
           Inl err \<Rightarrow> (Some (Wrap err ''failed to download spotguide YAML''), rows)
         | Inr spotguideRaw \<Rightarrow>
             (let model = scrapeModel (gr_FullName repository) spotguideRaw
              in FirstOrCreate unmarshal fault now model model rows))
      else topicLoop up unmarshal fault now repository topics rows)"

fun repositoryLoop ::
  "upstream \<Rightarrow> (string \<Rightarrow> error option) \<Rightarrow> (Repo \<Rightarrow> error option) \<Rightarrow> nat \<Rightarrow>
   github_Repository list \<Rightarrow> Repo list \<Rightarrow> error option \<times> Repo list" where
  "repositoryLoop up unmarshal fault now [] rows = (None, rows)"
| "repositoryLoop up unmarshal fault now (repository # repositories) rows =
     (case topicLoop up unmarshal fault now repository (gr_Topics repository) rows of
        (Some err, rows') \<Rightarrow> (Some err, rows')
      | (None, rows') \<Rightarrow> repositoryLoop up unmarshal fault now repositories rows')"

definition ScrapeSpotguides ::
  "upstream \<Rightarrow> (string \<Rightarrow> error option) \<Rightarrow> (Repo \<Rightarrow> error option) \<Rightarrow> nat \<Rightarrow> Repo list \<Rightarrow>
   (error option \<times> Repo list) option" where
  "ScrapeSpotguides up unmarshal fault now rows =
     (case listRepositories (ListByOrg up SpotguideGithubOrganization) 0 [] of
        None \<Rightarrow> None
      | Some (Inl err) \<Rightarrow> Some (Some err, rows)
      | Some (Inr allRepositories) \<Rightarrow> Some (repositoryLoop up unmarshal fault now allRepositories rows))"

text \<open>A catalog row without its \<^verbatim>\<open>UpdatedAt\<close> column: the record the scraper maintains.\<close>

definition SpotguideRecord ::
  "Repo \<Rightarrow> nat \<times> nat \<times> nat option \<times> string \<times> string \<times> string option" where
  "SpotguideRecord r =
     (repo_ID r, repo_CreatedAt r, repo_DeletedAt r, repo_Name r, repo_Icon r, repo_SpotguideRaw r)"

subsection \<open>A small upstream for the examples\<close>

definition ex_upstream :: "string \<Rightarrow> upstream" where
  "ex_upstream manifest =
     \<lparr>ListByOrg = (\<lambda>org page.
        if page = 0 then
          Inr ([\<lparr>gr_Owner_Login = ''banzaicloud'', gr_Name = ''docs'',
                 gr_FullName = ''banzaicloud/docs'', gr_Topics = [''documentation'']\<rparr>], 2)
        else
          Inr ([\<lparr>gr_Owner_Login = ''banzaicloud'', gr_Name = ''sg'',
                 gr_FullName = ''banzaicloud/sg'', gr_Topics = [''nodejs'', ''spotguide'']\<rparr>], 0)),
      DownloadContents = (\<lambda>owner repo file.
        if owner = ''banzaicloud'' \<and> repo = ''sg'' \<and> file = SpotguideYAMLPath
        then Inr manifest else Inl (External ''404 Not Found''))\<rparr>"

text \<open>A decoder that rejects the manifest \<^verbatim>\<open>new\<close> and accepts every other.\<close>

definition ex_unmarshal :: "string \<Rightarrow> error option" where
  "ex_unmarshal raw =
     (if raw = ''new'' then Some (External ''yaml: unmarshal errors'') else None)"

definition ex_catalog_row :: "nat \<Rightarrow> nat \<Rightarrow> string \<Rightarrow> Repo" where
  "ex_catalog_row i t manifest =
     \<lparr>repo_ID = i, repo_CreatedAt = t, repo_UpdatedAt = t, repo_DeletedAt = None,
      repo_Name = ''banzaicloud/sg'', repo_Icon = [], repo_SpotguideRaw = Some manifest\<rparr>"

text \<open>Some row of the table matches the condition of the scraper's model for a name and bytes.\<close>

definition covered :: "string \<Rightarrow> string \<Rightarrow> Repo list \<Rightarrow> bool" where
  "covered name spotguideRaw rows = (\<exists>r\<in>set rows. where_struct (scrapeModel name spotguideRaw) r)"

section \<open>The launch pipeline (package spotguide)\<close>

subsection \<open>The systems the pipeline calls\<close>

text \<open>
  The secret store, the hosting service and the CI service are outside the repository.
  Each has a state of its own (\<open>'s\<close>, \<open>'g\<close>, \<open>'d\<close>) that only its own calls read and
  change; a call returns its result and the new state, also when it fails. The calls are
  the fields of \<open>services\<close>, named after the Go calls: the hosting client is made from the
  user's access token, so its calls take the token first. \<open>http_Get\<close> is \<^verbatim>\<open>http.Get\<close>
  followed by \<^verbatim>\<open>ioutil.ReadAll\<close> (the source wraps the error of either with the same
  message), \<open>Spotguide_Unmarshal\<close> the decoding of a manifest in \<^verbatim>\<open>Repo.AfterFind\<close>, of
  which only the error is used here, and \<open>catalog_fault\<close> the driver error of a catalog
  query, if it fails. The HTTP request of the caller is only handed on to
  \<^verbatim>\<open>auth.NewDroneClient\<close>.
\<close>

type_synonym http_Request = string

datatype github_Commit =
  Commit (commit_SHA: string) (commit_Message: string) (commit_Parents: "github_Commit list")
    (commit_Tree: string)

record github_Reference =
  ref_Ref :: string
  ref_Object_SHA :: string

record ('s, 'g, 'd) services =
  secret_Store :: "nat \<Rightarrow> CreateSecretRequest \<Rightarrow> 's \<Rightarrow> (error + string) \<times> 's"
  TokenStore_Lookup :: "nat \<Rightarrow> error + string option"
  GetUserNickNameById :: "nat \<Rightarrow> string"
  catalog_fault :: "error option"
  Spotguide_Unmarshal :: "string \<Rightarrow> error option"
  yaml_lib :: yaml
  http_Get :: "string \<Rightarrow> error + string"
  zip_NewReader :: "string \<Rightarrow> error + zip_File list"
  GetReleaseByTag :: "string \<Rightarrow> string \<Rightarrow> string \<Rightarrow> string \<Rightarrow> 'g \<Rightarrow> (error + string) \<times> 'g"
  Repositories_Create :: "string \<Rightarrow> string \<Rightarrow> string \<Rightarrow> string \<Rightarrow> 'g \<Rightarrow> error option \<times> 'g"
  Repositories_CreateFile ::
    "string \<Rightarrow> string \<Rightarrow> string \<Rightarrow> string \<Rightarrow> string \<Rightarrow> string \<Rightarrow> 'g \<Rightarrow> (error + github_Commit) \<times> 'g"
  Git_CreateTree ::
    "string \<Rightarrow> string \<Rightarrow> string \<Rightarrow> string \<Rightarrow> TreeEntry list \<Rightarrow> 'g \<Rightarrow> (error + string) \<times> 'g"
  Git_CreateCommit ::
    "string \<Rightarrow> string \<Rightarrow> string \<Rightarrow> github_Commit \<Rightarrow> 'g \<Rightarrow> (error + github_Commit) \<times> 'g"
  Git_GetRef :: "string \<Rightarrow> string \<Rightarrow> string \<Rightarrow> string \<Rightarrow> 'g \<Rightarrow> (error + github_Reference) \<times> 'g"
  Git_UpdateRef ::
    "string \<Rightarrow> string \<Rightarrow> string \<Rightarrow> github_Reference \<Rightarrow> bool \<Rightarrow> 'g \<Rightarrow> error option \<times> 'g"
  NewDroneClient :: "http_Request \<Rightarrow> error + string"
  RepoListOpts :: "string \<Rightarrow> bool \<Rightarrow> bool \<Rightarrow> 'd \<Rightarrow> error option \<times> 'd"
  RepoPost :: "string \<Rightarrow> string \<Rightarrow> string \<Rightarrow> 'd \<Rightarrow> error option \<times> 'd"

record ('s, 'g, 'd) world =
  w_catalog :: "Repo list"
  w_secrets :: 's
  w_github :: 'g
  w_drone :: 'd

subsection \<open>\<^verbatim>\<open>GetSpotguide\<close>\<close>

text \<open>
  \<^verbatim>\<open>db.Where("name = ?", name).Find(&spotguide)\<close> into a struct: every matching row is
  scanned into the struct in turn, so the last one stays; no row is
  \<open>ErrRecordNotFound\<close>. The hook \<^verbatim>\<open>AfterFind\<close> then decodes the manifest and its
  error is the query's. The Go function returns the struct also with an error; its caller
  here reads it only without one.
\<close>

definition GetSpotguide :: "('s, 'g, 'd) services \<Rightarrow> Repo list \<Rightarrow> string \<Rightarrow> error + Repo" where
  "GetSpotguide sv catalog name =
     (case catalog_fault sv of
        Some err \<Rightarrow> Inl err
      | None \<Rightarrow>
          (case filter (\<lambda>r. repo_Name r = name \<and> repo_DeletedAt r = None) catalog of
             [] \<Rightarrow> Inl ErrRecordNotFound
           | r # rs \<Rightarrow>
               (case AfterFind (Spotguide_Unmarshal sv) (last (r # rs)) of
                  Some err \<Rightarrow> Inl err
                | None \<Rightarrow> Inr (last (r # rs)))))"

subsection \<open>\<^verbatim>\<open>createSecrets\<close>\<close>

fun createSecretsLoop ::
  "(nat \<Rightarrow> CreateSecretRequest \<Rightarrow> 's \<Rightarrow> (error + string) \<times> 's) \<Rightarrow> nat \<Rightarrow> string \<Rightarrow>
   CreateSecretRequest list \<Rightarrow> 's \<Rightarrow> error option \<times> 's" where
  "createSecretsLoop store orgID repoTag [] s = (None, s)"
| "createSecretsLoop store orgID repoTag (secretRequest # secrets) s =
     (let tagged = secretRequest\<lparr>sr_Tags := sr_Tags secretRequest @ [repoTag]\<rparr> in
      case store orgID tagged s of
        (Inl err, s') \<Rightarrow>
          (Some (Wrap err (''failed to create spotguide secret:'' @ sr_Name tagged)), s')
      | (Inr secretID, s') \<Rightarrow> createSecretsLoop store orgID repoTag secrets s')"

definition createSecrets ::
  "('s, 'g, 'd) services \<Rightarrow> LaunchRequest \<Rightarrow> nat \<Rightarrow> nat \<Rightarrow> 's \<Rightarrow> error option \<times> 's" where
  "createSecrets sv request orgID userID s =
     createSecretsLoop (secret_Store sv) orgID (''repo:'' @ RepoFullname request)
       (Secrets request) s"

subsection \<open>\<^verbatim>\<open>getSpotguideContent\<close> and \<^verbatim>\<open>createGithubRepo\<close>\<close>

definition getUserGithubToken :: "('s, 'g, 'd) services \<Rightarrow> nat \<Rightarrow> error + string" where
  "getUserGithubToken sv userID =
     (case TokenStore_Lookup sv userID of
        Inl err \<Rightarrow> Inl err
      | Inr None \<Rightarrow> Inl (ErrorString ''Github token not found for user'')
      | Inr (Some token) \<Rightarrow> Inr token)"

text \<open>
  The owner and the name of the template are \<^verbatim>\<open>strings.Split(sourceRepo.Name, "/")\<close> at
  0 and 1; index 1 panics on a name without a slash.
\<close>

definition getSpotguideContent ::
  "('s, 'g, 'd) services \<Rightarrow> string \<Rightarrow> LaunchRequest \<Rightarrow> Repo \<Rightarrow> 'g \<Rightarrow> TreeEntry list result \<times> 'g" where
  "getSpotguideContent sv token request sourceRepo g =
     (let sourceRepoParts = Split (repo_Name sourceRepo) (CHR ''/'') in
      if length sourceRepoParts \<le> 1 then (Panic ''index out of range [1]'', g)
      else
        (case GetReleaseByTag sv token (sourceRepoParts ! 0) (sourceRepoParts ! 1) ''spotguide'' g of
           (Inl err, g') \<Rightarrow>
             (Err (Wrap err ''failed to find source spotguide repository release''), g')
         | (Inr zipballURL, g') \<Rightarrow>
             (case http_Get sv zipballURL of
                Inl err \<Rightarrow>
                  (Err (Wrap err ''failed to download source spotguide repository release''), g')
              | Inr repoBytes \<Rightarrow>
                  (case zip_NewReader sv repoBytes of
                     Inl err \<Rightarrow>
                       (Err (Wrap err ''failed to extract source spotguide repository release''), g')
                   | Inr files \<Rightarrow> (treeEntries (yaml_lib sv) request sourceRepo files, g')))))"

definition createGithubRepo ::
  "('s, 'g, 'd) services \<Rightarrow> LaunchRequest \<Rightarrow> nat \<Rightarrow> Repo \<Rightarrow> 'g \<Rightarrow> unit result \<times> 'g" where
  "createGithubRepo sv request userID sourceRepo g =
     (case getUserGithubToken sv userID of
        Inl err \<Rightarrow> (Err (Wrap err ''failed to create GitHub client''), g)
      | Inr token \<Rightarrow>
     (let orgName = (if GetUserNickNameById sv userID = RepoOrganization request then []
                     else RepoOrganization request) in
      case Repositories_Create sv token orgName (RepoName request) ''Spotguide by BanzaiCloud'' g of
        (Some err, g1) \<Rightarrow> (Err (Wrap err ''failed to create spotguide repository''), g1)
      | (None, g1) \<Rightarrow>
     (case Repositories_CreateFile sv token (RepoOrganization request) (RepoName request)
             ''README.md'' ''# Say hello to Spotguides!'' ''initial import'' g1 of
        (Inl err, g2) \<Rightarrow> (Err (Wrap err ''failed to initialize spotguide repository''), g2)
      | (Inr contentCommit, g2) \<Rightarrow>
     (case getSpotguideContent sv token request sourceRepo g2 of
        (Panic p, g3) \<Rightarrow> (Panic p, g3)
      | (Err err, g3) \<Rightarrow> (Err (Wrap err ''failed to prepare spotguide git content''), g3)
      | (Ok spotguideEntries, g3) \<Rightarrow>
     (case Git_CreateTree sv token (RepoOrganization request) (RepoName request)
             (commit_SHA contentCommit) spotguideEntries g3 of
        (Inl err, g4) \<Rightarrow>
          (Err (Wrap err ''failed to create git tree for spotguide repository''), g4)
      | (Inr tree, g4) \<Rightarrow>
     (case Git_CreateCommit sv token (RepoOrganization request) (RepoName request)
             (Commit [] ''adding spotguide structure'' [contentCommit] tree) g4 of
        (Inl err, g5) \<Rightarrow>
          (Err (Wrap err ''failed to create git commit for spotguide repository''), g5)
      | (Inr newCommit, g5) \<Rightarrow>
     (case Git_GetRef sv token (RepoOrganization request) (RepoName request)
             ''refs/heads/master'' g5 of
        (Inl err, g6) \<Rightarrow> (Err (Wrap err ''failed to get git ref for spotguide repository''), g6)
      | (Inr ref, g6) \<Rightarrow>
     (case Git_UpdateRef sv token (RepoOrganization request) (RepoName request)
             (ref\<lparr>ref_Object_SHA := commit_SHA newCommit\<rparr>) False g6 of
        (Some err, g7) \<Rightarrow>
          (Err (Wrap err ''failed to update git ref for spotguide repository''), g7)
      | (None, g7) \<Rightarrow> (Ok (), g7)))))))))"

subsection \<open>\<^verbatim>\<open>enableCICD\<close> and \<^verbatim>\<open>LaunchSpotguide\<close>\<close>

definition enableCICD ::
  "('s, 'g, 'd) services \<Rightarrow> LaunchRequest \<Rightarrow> http_Request \<Rightarrow> 'd \<Rightarrow> error option \<times> 'd" where
  "enableCICD sv request httpRequest d =
     (case NewDroneClient sv httpRequest of
        Inl err \<Rightarrow> (Some (Wrap err ''failed to create Drone client''), d)
      | Inr droneClient \<Rightarrow>
          (case RepoListOpts sv droneClient True True d of
             (Some err, d1) \<Rightarrow> (Some (Wrap err ''failed to sync Drone repositories''), d1)
           | (None, d1) \<Rightarrow>
               (case RepoPost sv droneClient (RepoOrganization request) (RepoName request) d1 of
                  (Some err, d2) \<Rightarrow> (Some (Wrap err ''failed to sync enable Drone repository''), d2)
                | (None, d2) \<Rightarrow> (None, d2))))"

definition LaunchSpotguide ::
  "('s, 'g, 'd) services \<Rightarrow> LaunchRequest \<Rightarrow> http_Request \<Rightarrow> nat \<Rightarrow> nat \<Rightarrow> ('s, 'g, 'd) world \<Rightarrow>
   unit result \<times> ('s, 'g, 'd) world" where
  "LaunchSpotguide sv request httpRequest orgID userID w =
     (case GetSpotguide sv (w_catalog w) (SpotguideName request) of
        Inl err \<Rightarrow> (Err (Wrap err ''Failed to find spotguide repo''), w)
      | Inr sourceRepo \<Rightarrow>
     (case createSecrets sv request orgID userID (w_secrets w) of
        (Some err, s') \<Rightarrow>
          (Err (Wrap err ''Failed to create secrets for spotguide''), w\<lparr>w_secrets := s'\<rparr>)
      | (None, s') \<Rightarrow>
     (case createGithubRepo sv request userID sourceRepo (w_github w) of
        (Panic p, g') \<Rightarrow> (Panic p, w\<lparr>w_secrets := s', w_github := g'\<rparr>)
      | (Err err, g') \<Rightarrow>
          (Err (Wrap err ''Failed to create GitHub repository''),
           w\<lparr>w_secrets := s', w_github := g'\<rparr>)
      | (Ok u, g') \<Rightarrow>
     (case enableCICD sv request httpRequest (w_drone w) of
        (Some err, d') \<Rightarrow>
          (Err (Wrap err ''Failed to enable CI/CD for spotguide''),
           w\<lparr>w_secrets := s', w_github := g', w_drone := d'\<rparr>)
      | (None, d') \<Rightarrow> (Ok (), w\<lparr>w_secrets := s', w_github := g', w_drone := d'\<rparr>)))))"

text \<open>
  The state of the secret store after one \<open>Store\<close> call for every secret of a list, each
  with the tag of the destination repository added.
\<close>

definition storedAll ::
  "(nat \<Rightarrow> CreateSecretRequest \<Rightarrow> 's \<Rightarrow> (error + string) \<times> 's) \<Rightarrow> nat \<Rightarrow> string \<Rightarrow>
   CreateSecretRequest list \<Rightarrow> 's \<Rightarrow> 's" where
  "storedAll store orgID repoTag secrets s =
     fold (\<lambda>secretRequest s.
             snd (store orgID (secretRequest\<lparr>sr_Tags := sr_Tags secretRequest @ [repoTag]\<rparr>) s))
       secrets s"

subsection \<open>Services for the examples\<close>

text \<open>
  A secret store that keeps every request it is given, a hosting service on which the
  destination repository already exists, and a CI service that accepts everything.
\<close>

definition ex_services ::
  "((nat \<times> CreateSecretRequest) list, string list, string list) services" where
  "ex_services =
     \<lparr>secret_Store = (\<lambda>orgID r s. (Inr (sr_Name r), s @ [(orgID, r)])),
      TokenStore_Lookup = (\<lambda>userID. Inr (Some ''token'')),
      GetUserNickNameById = (\<lambda>userID. ''alice''),
      catalog_fault = None,
      Spotguide_Unmarshal = (\<lambda>raw. None),
      yaml_lib = toy_yaml,
      http_Get = (\<lambda>url. Inl (External ''connection refused'')),
      zip_NewReader = (\<lambda>bytes. Inl (External ''zip: not a valid zip file'')),
      GetReleaseByTag = (\<lambda>token owner repo tag g. (Inl (External ''404 Not Found''), g)),
      Repositories_Create = (\<lambda>token org name description g.
        if (org @ ''/'' @ name) \<in> set g
        then (Some (External ''422 name already exists on this account''), g)
        else (None, g @ [org @ ''/'' @ name])),
      Repositories_CreateFile = (\<lambda>token owner repo path content message g.
        (Inl (External ''404 Not Found''), g)),
      Git_CreateTree = (\<lambda>token owner repo base entries g. (Inl (External ''404 Not Found''), g)),
      Git_CreateCommit = (\<lambda>token owner repo commit g. (Inl (External ''404 Not Found''), g)),
      Git_GetRef = (\<lambda>token owner repo ref g. (Inl (External ''404 Not Found''), g)),
      Git_UpdateRef = (\<lambda>token owner repo ref force g. (Some (External ''404 Not Found''), g)),
      NewDroneClient = (\<lambda>httpRequest. Inr ''drone''),
      RepoListOpts = (\<lambda>client all flush d. (None, d)),
      RepoPost = (\<lambda>client owner name d. (None, d @ [owner @ ''/'' @ name]))\<rparr>"

definition ex_world :: "((nat \<times> CreateSecretRequest) list, string list, string list) world" where
  "ex_world =
     \<lparr>w_catalog = [ex_sourceRepo], w_secrets = [], w_github = [''acme/proj1''], w_drone = []\<rparr>"

section \<open>Properties of the cluster repository and manager\<close>

lemma least_by_None: "least_by key rs = None \<longleftrightarrow> rs = []"
  by (induction rs) (auto split: option.splits)

lemma least_by_mem: "least_by key rs = Some r \<Longrightarrow> r \<in> set rs"
  by (induction rs arbitrary: r) (auto split: option.splits if_splits)

lemma gorm_First_found:
  "gorm_First c cond = Inr r \<Longrightarrow> r \<in> set (db_rows c) \<and> live r \<and> cond r"
  by (auto simp: gorm_First_def split: option.splits dest: least_by_mem)

lemma gorm_First_none:
  "db_fault c = None \<Longrightarrow> \<forall>r\<in>set (db_rows c). \<not> (live r \<and> cond r) \<Longrightarrow>
   gorm_First c cond = Inl ErrRecordNotFound"
  by (simp add: gorm_First_def least_by_None filter_empty_conv)

lemma getClustersLoop_resolvable:
  "getClustersLoop factory ms acc = acc @ resolvable factory ms"
  by (induction ms arbitrary: acc)
    (auto simp: resolvable_def List.map_filter_def split: sum.splits)

lemma resolvable_append:
  "resolvable factory (xs @ ys) = resolvable factory xs @ resolvable factory ys"
  by (simp add: resolvable_def List.map_filter_def)

lemma resolvable_skip:
  "factory bad = Inl e \<Longrightarrow> resolvable factory (bad # ys) = resolvable factory ys"
  by (simp add: resolvable_def List.map_filter_def)

text \<open>
  C3. Whatever list of records the fetch returns, each bulk listing (\<open>GetClusters\<close>,
  \<open>GetAllClusters\<close>, \<open>GetClustersBySecretID\<close>) succeeds with exactly the handles of the
  records the factory resolves, in the order of the fetch result; a record the factory
  rejects is skipped, and putting such a record anywhere into the list leaves the result
  for the other records as it was.
\<close>

theorem bulk_listing_skips_unresolvable:
  "(FindByOrganization c organizationID = Inr ms \<longrightarrow>
      GetClusters c factory organizationID = Inr (resolvable factory ms)) \<and>
   (All c = Inr ms \<longrightarrow> GetAllClusters c factory = Inr (resolvable factory ms)) \<and>
   (FindBySecret c organizationID secretID = Inr ms \<longrightarrow>
      GetClustersBySecretID c factory organizationID secretID = Inr (resolvable factory ms)) \<and>
   (factory bad = Inl e \<longrightarrow>
      getClustersFromModels factory (xs @ bad # ys) = getClustersFromModels factory (xs @ ys) \<and>
      getClustersLoop factory (xs @ bad # ys) [] = getClustersLoop factory (xs @ ys) [])"
  by (simp add: GetClusters_def GetAllClusters_def GetClustersBySecretID_def
      getClustersFromModels_def getClustersLoop_resolvable resolvable_append resolvable_skip)

theorem bulk_listing_skips_unresolvable_witness:
  "FindByOrganization ex_clusters 7 =
     Inr [ex_row 1 ''a'' 7 ''amazon'', ex_row 2 ''b'' 7 ''bogus'', ex_row 3 ''c'' 7 ''amazon''] \<and>
   GetClusters ex_clusters ex_factory 7 = Inr [''eks:a'', ''eks:c''] \<and>
   All ex_clusters = Inr (db_rows ex_clusters) \<and>
   GetAllClusters ex_clusters ex_factory = Inr [''eks:a'', ''eks:c'', ''eks:d''] \<and>
   FindBySecret ex_clusters 8 ''s1'' = Inr [ex_row 4 ''d'' 8 ''amazon''] \<and>
   GetClustersBySecretID ex_clusters ex_factory 8 ''s1'' = Inr [''eks:d''] \<and>
   ex_factory (ex_row 2 ''b'' 7 ''bogus'') = Inl (ErrorString ''unsupported provider'') \<and>
   getClustersFromModels ex_factory
     ([ex_row 1 ''a'' 7 ''amazon''] @ ex_row 2 ''b'' 7 ''bogus'' # [ex_row 3 ''c'' 7 ''amazon'']) =
   getClustersFromModels ex_factory ([ex_row 1 ''a'' 7 ''amazon''] @ [ex_row 3 ''c'' 7 ''amazon''])"
proof -
  let ?a = "ex_row 1 ''a'' 7 ''amazon''" and ?b = "ex_row 2 ''b'' 7 ''bogus''"
  let ?c = "ex_row 3 ''c'' 7 ''amazon''" and ?d = "ex_row 4 ''d'' 8 ''amazon''"
  have f1: "FindByOrganization ex_clusters 7 = Inr [?a, ?b, ?c]"
    by (simp add: FindByOrganization_def gorm_Find_def ex_clusters_def ex_row_def live_def)
  have f2: "All ex_clusters = Inr (db_rows ex_clusters)"
    by (simp add: All_def gorm_Find_def ex_clusters_def ex_row_def live_def)
  have f3: "FindBySecret ex_clusters 8 ''s1'' = Inr [?d]"
    by (simp add: FindBySecret_def gorm_Find_def ex_clusters_def ex_row_def live_def)
  have bad: "ex_factory ?b = Inl (ErrorString ''unsupported provider'')"
    by (simp add: ex_factory_def ex_row_def)
  have r1: "resolvable ex_factory [?a, ?b, ?c] = [''eks:a'', ''eks:c'']"
    by (simp add: resolvable_def List.map_filter_def ex_factory_def ex_row_def)
  have r2: "resolvable ex_factory (db_rows ex_clusters) = [''eks:a'', ''eks:c'', ''eks:d'']"
    by (simp add: resolvable_def List.map_filter_def ex_factory_def ex_row_def ex_clusters_def)
  have r3: "resolvable ex_factory [?d] = [''eks:d'']"
    by (simp add: resolvable_def List.map_filter_def ex_factory_def ex_row_def)
  note t1 = bulk_listing_skips_unresolvable [where c = ex_clusters and organizationID = 7
      and ms = "[?a, ?b, ?c]" and factory = ex_factory and bad = ?b
      and e = "ErrorString ''unsupported provider''" and xs = "[?a]" and ys = "[?c]"]
  note t2 = bulk_listing_skips_unresolvable [where c = ex_clusters and ms = "db_rows ex_clusters"
      and factory = ex_factory]
  note t3 = bulk_listing_skips_unresolvable [where c = ex_clusters and organizationID = 8
      and secretID = "''s1''" and ms = "[?d]" and factory = ex_factory]
  have g1: "GetClusters ex_clusters ex_factory 7 = Inr [''eks:a'', ''eks:c'']"
    using t1 f1 r1 by simp
  have g2: "GetAllClusters ex_clusters ex_factory = Inr [''eks:a'', ''eks:c'', ''eks:d'']"
    using t2 f2 r2 by simp
  have g3: "GetClustersBySecretID ex_clusters ex_factory 8 ''s1'' = Inr [''eks:d'']"
    using t3 f3 r3 by simp
  have g4: "getClustersFromModels ex_factory ([?a] @ ?b # [?c]) =
            getClustersFromModels ex_factory ([?a] @ [?c])"
    using t1 bad by simp
  show ?thesis
    using f1 f2 f3 bad g1 g2 g3 g4 by simp
qed

text \<open>
  C4. When the query runs and no live record of the organization has the given ID (or
  name), \<open>GetClusterByID\<close> (or \<open>GetClusterByName\<close>) returns an error, never a value, and
  the error is the wrapped \<open>clusterModelNotFoundError\<close>, a NotFound condition. When the
  record is found and the factory fails on it, the factory's error is returned, wrapped.
\<close>

theorem single_lookup_errors:
  "(db_fault c = None \<and>
      (\<forall>r\<in>set (db_rows c).
          \<not> (live r \<and> cm_ID r = clusterID \<and> cm_OrganizationId r = organizationID)) \<longrightarrow>
      GetClusterByID c factory organizationID clusterID =
        Inl (Wrap (WithStack (clusterModelNotFoundError (CritID clusterID) organizationID))
               ''could not get cluster from database'') \<and>
      (\<exists>err. GetClusterByID c factory organizationID clusterID = Inl err \<and> NotFound err)) \<and>
   (db_fault c = None \<and>
      (\<forall>r\<in>set (db_rows c).
          \<not> (live r \<and> cm_Name r = clusterName \<and> cm_OrganizationId r = organizationID)) \<longrightarrow>
      GetClusterByName c factory organizationID clusterName =
        Inl (Wrap (WithStack (clusterModelNotFoundError (CritName clusterName) organizationID))
               ''could not get cluster from database'') \<and>
      (\<exists>err. GetClusterByName c factory organizationID clusterName = Inl err \<and> NotFound err)) \<and>
   (FindOneByID c organizationID clusterID = Inr m \<and> factory m = Inl e \<longrightarrow>
      GetClusterByID c factory organizationID clusterID =
        Inl (Wrap e ''could not get cluster from model'')) \<and>
   (FindOneByName c organizationID clusterName = Inr m' \<and> factory m' = Inl e' \<longrightarrow>
      GetClusterByName c factory organizationID clusterName =
        Inl (Wrap e' ''could not get cluster from model''))"
proof -
  have byID: "GetClusterByID c factory organizationID clusterID =
        Inl (Wrap (WithStack (clusterModelNotFoundError (CritID clusterID) organizationID))
               ''could not get cluster from database'')"
    if "db_fault c = None"
      and "\<forall>r\<in>set (db_rows c).
             \<not> (live r \<and> cm_ID r = clusterID \<and> cm_OrganizationId r = organizationID)"
  proof -
    have "gorm_First c
            (\<lambda>r. field_is ''id'' (CritID clusterID) r \<and> cm_OrganizationId r = organizationID)
          = Inl ErrRecordNotFound"
      using that by (intro gorm_First_none) auto
    then show ?thesis
      by (simp add: GetClusterByID_def FindOneByID_def findOneBy_def IsRecordNotFoundError_def)
  qed
  have byName: "GetClusterByName c factory organizationID clusterName =
        Inl (Wrap (WithStack (clusterModelNotFoundError (CritName clusterName) organizationID))
               ''could not get cluster from database'')"
    if "db_fault c = None"
      and "\<forall>r\<in>set (db_rows c).
             \<not> (live r \<and> cm_Name r = clusterName \<and> cm_OrganizationId r = organizationID)"
  proof -
    have "gorm_First c
            (\<lambda>r. field_is ''name'' (CritName clusterName) r \<and> cm_OrganizationId r = organizationID)
          = Inl ErrRecordNotFound"
      using that by (intro gorm_First_none) auto
    then show ?thesis
      by (simp add: GetClusterByName_def FindOneByName_def findOneBy_def
          IsRecordNotFoundError_def)
  qed
  have res1: "GetClusterByID c factory organizationID clusterID =
                Inl (Wrap e ''could not get cluster from model'')"
    if "FindOneByID c organizationID clusterID = Inr m" "factory m = Inl e"
    using that by (simp add: GetClusterByID_def)
  have res2: "GetClusterByName c factory organizationID clusterName =
                Inl (Wrap e' ''could not get cluster from model'')"
    if "FindOneByName c organizationID clusterName = Inr m'" "factory m' = Inl e'"
    using that by (simp add: GetClusterByName_def)
  show ?thesis
    using byID byName res1 res2 by simp
qed

theorem single_lookup_errors_witness:
  "GetClusterByID ex_clusters ex_factory 7 9 =
     Inl (Wrap (WithStack (clusterModelNotFoundError (CritID 9) 7))
            ''could not get cluster from database'') \<and>
   GetClusterByName ex_clusters ex_factory 7 ''d'' =
     Inl (Wrap (WithStack (clusterModelNotFoundError (CritName ''d'') 7))
            ''could not get cluster from database'') \<and>
   FindOneByID ex_clusters 7 2 = Inr (ex_row 2 ''b'' 7 ''bogus'') \<and>
   GetClusterByID ex_clusters ex_factory 7 2 =
     Inl (Wrap (ErrorString ''unsupported provider'') ''could not get cluster from model'') \<and>
   FindOneByName ex_clusters 7 ''b'' = Inr (ex_row 2 ''b'' 7 ''bogus'') \<and>
   GetClusterByName ex_clusters ex_factory 7 ''b'' =
     Inl (Wrap (ErrorString ''unsupported provider'') ''could not get cluster from model'')"
proof -
  have f: "db_fault ex_clusters = None" by (simp add: ex_clusters_def)
  have n1: "\<forall>r\<in>set (db_rows ex_clusters).
              \<not> (live r \<and> cm_ID r = 9 \<and> cm_OrganizationId r = 7)"
    by (simp add: ex_clusters_def ex_row_def)
  have n2: "\<forall>r\<in>set (db_rows ex_clusters).
              \<not> (live r \<and> cm_Name r = ''d'' \<and> cm_OrganizationId r = 7)"
    by (simp add: ex_clusters_def ex_row_def)
  have a: "FindOneByID ex_clusters 7 2 = Inr (ex_row 2 ''b'' 7 ''bogus'')"
    by (simp add: FindOneByID_def findOneBy_def gorm_First_def ex_clusters_def ex_row_def
        live_def)
  have b: "FindOneByName ex_clusters 7 ''b'' = Inr (ex_row 2 ''b'' 7 ''bogus'')"
    by (simp add: FindOneByName_def findOneBy_def gorm_First_def ex_clusters_def ex_row_def
        live_def)
  have fe: "ex_factory (ex_row 2 ''b'' 7 ''bogus'') = Inl (ErrorString ''unsupported provider'')"
    by (simp add: ex_factory_def ex_row_def)
  note t1 = single_lookup_errors [where c = ex_clusters and clusterID = 9 and organizationID = 7
      and factory = ex_factory and clusterName = "''d''"]
  note t2 = single_lookup_errors [where c = ex_clusters and clusterID = 2 and organizationID = 7
      and factory = ex_factory and clusterName = "''b''" and m = "ex_row 2 ''b'' 7 ''bogus''"
      and m' = "ex_row 2 ''b'' 7 ''bogus''" and e = "ErrorString ''unsupported provider''"
      and e' = "ErrorString ''unsupported provider''"]
  show ?thesis
    using t1 t2 f n1 n2 a b fe by simp
qed

text \<open>
  C9. \<open>Exists\<close> returns \<open>(false, nil)\<close> when the query runs and no live record of the
  organization has the name. When the query finds a record, the answer is \<open>true\<close> exactly
  when that record's ID is zero; so over a table whose records all have a nonzero primary
  key, \<open>Exists\<close> answers \<open>false\<close> for every organization and name.
\<close>

theorem Exists_true_iff_zero_ID:
  "(db_fault c = None \<and>
      (\<forall>r\<in>set (db_rows c).
          \<not> (live r \<and> cm_Name r = name \<and> cm_OrganizationId r = organizationID)) \<longrightarrow>
      Exists c organizationID name = (False, None)) \<and>
   (gorm_First c (\<lambda>r. cm_Name r = name \<and> cm_OrganizationId r = organizationID) = Inr found \<longrightarrow>
      Exists c organizationID name = (cm_ID found = 0, None)) \<and>
   ((\<forall>r\<in>set (db_rows c). cm_ID r \<noteq> 0) \<longrightarrow> fst (Exists c organizationID name) = False)"
proof -
  let ?cond = "\<lambda>r. cm_Name r = name \<and> cm_OrganizationId r = organizationID"
  have none: "Exists c organizationID name = (False, None)"
    if "db_fault c = None" and "\<forall>r\<in>set (db_rows c). \<not> (live r \<and> ?cond r)"
  proof -
    have "gorm_First c ?cond = Inl ErrRecordNotFound"
      using that by (intro gorm_First_none) auto
    then show ?thesis by (simp add: Exists_def IsRecordNotFoundError_def)
  qed
  have some: "Exists c organizationID name = (cm_ID found = 0, None)"
    if "gorm_First c ?cond = Inr found"
    using that by (simp add: Exists_def)
  have persisted: "fst (Exists c organizationID name) = False"
    if nz: "\<forall>r\<in>set (db_rows c). cm_ID r \<noteq> 0"
  proof (cases "gorm_First c ?cond")
    case (Inl err)
    then show ?thesis by (simp add: Exists_def)
  next
    case (Inr r)
    then have "r \<in> set (db_rows c)" using gorm_First_found by blast
    with nz have "cm_ID r \<noteq> 0" by blast
    with Inr show ?thesis by (simp add: Exists_def)
  qed
  show ?thesis using none some persisted by simp
qed

theorem Exists_true_iff_zero_ID_witness:
  "Exists ex_clusters 7 ''zzz'' = (False, None) \<and>
   gorm_First ex_clusters (\<lambda>r. cm_Name r = ''a'' \<and> cm_OrganizationId r = 7) =
     Inr (ex_row 1 ''a'' 7 ''amazon'') \<and>
   Exists ex_clusters 7 ''a'' = (False, None) \<and>
   gorm_First (ex_clusters\<lparr>db_rows := [ex_row 0 ''fresh'' 7 ''amazon'']\<rparr>)
       (\<lambda>r. cm_Name r = ''fresh'' \<and> cm_OrganizationId r = 7) =
     Inr (ex_row 0 ''fresh'' 7 ''amazon'') \<and>
   Exists (ex_clusters\<lparr>db_rows := [ex_row 0 ''fresh'' 7 ''amazon'']\<rparr>) 7 ''fresh'' = (True, None) \<and>
   fst (Exists ex_clusters 8 ''d'') = False"
proof -
  let ?z = "ex_clusters\<lparr>db_rows := [ex_row 0 ''fresh'' 7 ''amazon'']\<rparr>"
  have f: "db_fault ex_clusters = None" by (simp add: ex_clusters_def)
  have n: "\<forall>r\<in>set (db_rows ex_clusters).
             \<not> (live r \<and> cm_Name r = ''zzz'' \<and> cm_OrganizationId r = 7)"
    by (simp add: ex_clusters_def ex_row_def)
  have a: "gorm_First ex_clusters (\<lambda>r. cm_Name r = ''a'' \<and> cm_OrganizationId r = 7) =
             Inr (ex_row 1 ''a'' 7 ''amazon'')"
    by (simp add: gorm_First_def ex_clusters_def ex_row_def live_def)
  have z: "gorm_First ?z (\<lambda>r. cm_Name r = ''fresh'' \<and> cm_OrganizationId r = 7) =
             Inr (ex_row 0 ''fresh'' 7 ''amazon'')"
    by (simp add: gorm_First_def ex_clusters_def ex_row_def live_def)
  have nz: "\<forall>r\<in>set (db_rows ex_clusters). cm_ID r \<noteq> 0"
    by (simp add: ex_clusters_def ex_row_def)
  have ia: "cm_ID (ex_row 1 ''a'' 7 ''amazon'') \<noteq> 0" and iz: "cm_ID (ex_row 0 ''fresh'' 7 ''amazon'') = 0"
    by (simp_all add: ex_row_def)
  note t1 = Exists_true_iff_zero_ID [where c = ex_clusters and organizationID = 7
      and name = "''zzz''"]
  note t2 = Exists_true_iff_zero_ID [where c = ex_clusters and organizationID = 7
      and name = "''a''" and found = "ex_row 1 ''a'' 7 ''amazon''"]
  note t3 = Exists_true_iff_zero_ID [where c = ?z and organizationID = 7
      and name = "''fresh''" and found = "ex_row 0 ''fresh'' 7 ''amazon''"]
  note t4 = Exists_true_iff_zero_ID [where c = ex_clusters and organizationID = 8
      and name = "''d''"]
  have e1: "Exists ex_clusters 7 ''zzz'' = (False, None)" using t1 f n by simp
  have e2: "Exists ex_clusters 7 ''a'' = (False, None)" using t2 a ia by simp
  have e3: "Exists ?z 7 ''fresh'' = (True, None)" using t3 z iz by simp
  have e4: "fst (Exists ex_clusters 8 ''d'') = False" using t4 nz by simp
  show ?thesis using e1 e2 e3 e4 a z by simp
qed

section \<open>Properties of the content loop\<close>

lemma SplitN_2_slash:
  "CHR ''/'' \<in> set name \<Longrightarrow>
   SplitN name (CHR ''/'') 2 = [takeWhile (\<lambda>x. x \<noteq> CHR ''/'') name, afterFirstSlash name]"
  by (simp add: afterFirstSlash_def numeral_2_eq_2)

lemma SplitN_2_no_slash:
  "CHR ''/'' \<notin> set name \<Longrightarrow> SplitN name (CHR ''/'') 2 = [name]"
  by (simp add: numeral_2_eq_2)

lemma name_split:
  assumes "CHR ''/'' \<in> set name"
  shows "name = takeWhile (\<lambda>x. x \<noteq> CHR ''/'') name @ ''/'' @ afterFirstSlash name"
proof -
  let ?d = "dropWhile (\<lambda>x. x \<noteq> CHR ''/'') name"
  from assms have ne: "?d \<noteq> []" by (simp add: dropWhile_eq_Nil_conv)
  then have "hd ?d = CHR ''/''" using hd_dropWhile [of "\<lambda>x. x \<noteq> CHR ''/''" name] by simp
  with ne have "?d = CHR ''/'' # drop 1 ?d" by (cases ?d) auto
  then have "takeWhile (\<lambda>x. x \<noteq> CHR ''/'') name @ CHR ''/'' # drop 1 ?d = name"
    using takeWhile_dropWhile_id [of "\<lambda>x. x \<noteq> CHR ''/''" name] by simp
  then show ?thesis by (simp add: afterFirstSlash_def)
qed


lemma contentLoop_Ok:
  "contentLoop y request sourceRepo files acc = Ok es \<Longrightarrow>
   \<exists>new. es = acc @ new \<and> list_all2 (materialized y request sourceRepo) (fileEntries files) new"
proof (induction files arbitrary: acc)
  case Nil
  then show ?case by (simp add: fileEntries_def)
next
  case (Cons zf zfs)
  show ?case
  proof (cases "zf_IsDir zf")
    case True
    with Cons show ?thesis by (simp add: fileEntries_def)
  next
    case False
    from Cons.prems False obtain content where rd: "zf_Read zf = Inr content"
      by (cases "zf_Read zf") auto
    have slash: "CHR ''/'' \<in> set (zf_Name zf)"
    proof (rule ccontr)
      assume "CHR ''/'' \<notin> set (zf_Name zf)"
      then have "SplitN (zf_Name zf) (CHR ''/'') 2 = [zf_Name zf]" by (rule SplitN_2_no_slash)
      with Cons.prems False rd show False by simp
    qed
    note sp = SplitN_2_slash [OF slash]
    let ?path = "afterFirstSlash (zf_Name zf)"
    show ?thesis
    proof (cases "?path = PipelineYAMLPath @ ''disabled''")
      case True
      with Cons.prems False rd sp obtain c' where
        pr: "preparePipelineYAML y request sourceRepo content = Inr c'"
        and rest: "contentLoop y request sourceRepo zfs (acc @ [blob ?path c']) = Ok es"
        by (cases "preparePipelineYAML y request sourceRepo content") (auto simp: Let_def)
      from Cons.IH [OF rest] obtain new where
        new: "es = (acc @ [blob ?path c']) @ new"
          "list_all2 (materialized y request sourceRepo) (fileEntries zfs) new" by blast
      have "materialized y request sourceRepo zf (blob ?path c')"
        using slash rd pr True by (simp add: materialized_def blob_def)
      with new False show ?thesis
        by (intro exI [of _ "blob ?path c' # new"]) (simp add: fileEntries_def)
    next
      case F: False
      with Cons.prems False rd sp have
        rest: "contentLoop y request sourceRepo zfs (acc @ [blob ?path content]) = Ok es"
        by (auto simp: Let_def)
      from Cons.IH [OF rest] obtain new where
        new: "es = (acc @ [blob ?path content]) @ new"
          "list_all2 (materialized y request sourceRepo) (fileEntries zfs) new" by blast
      have "materialized y request sourceRepo zf (blob ?path content)"
        using slash rd F by (simp add: materialized_def blob_def)
      with new False show ?thesis
        by (intro exI [of _ "blob ?path content # new"]) (simp add: fileEntries_def)
    qed
  qed
qed

lemma treeEntries_Ok:
  "treeEntries y request sourceRepo files = Ok es \<Longrightarrow>
   list_all2 (materialized y request sourceRepo) (fileEntries files) es"
  using contentLoop_Ok [of y request sourceRepo files "[]" es] by (simp add: treeEntries_def)

lemma contentLoop_append:
  "contentLoop y request sourceRepo (pre @ rest) acc =
     (case contentLoop y request sourceRepo pre acc of
        Ok acc' \<Rightarrow> contentLoop y request sourceRepo rest acc'
      | Err e \<Rightarrow> Err e
      | Panic s \<Rightarrow> Panic s)"
  by (induction pre arbitrary: acc) (auto simp: Let_def split: sum.splits)

lemma contentLoop_no_panic:
  "\<forall>zf\<in>set files. \<not> zf_IsDir zf \<longrightarrow> CHR ''/'' \<in> set (zf_Name zf) \<Longrightarrow>
   contentLoop y request sourceRepo files acc \<noteq> Panic s"
  by (induction files arbitrary: acc) (auto simp: Let_def SplitN_2_slash split: sum.splits)

lemma appendSecrets_eq:
  "appendSecrets p secrets = p\<lparr>plugin_Secrets := plugin_Secrets p @ map sr_Name secrets\<rparr>"
  by (induction secrets arbitrary: p) auto

lemma droneRepoConfigSecrets_eq:
  "droneRepoConfigSecrets request cfg = withSecrets (map sr_Name (Secrets request)) cfg"
  by (cases "Secrets request")
    (auto simp: droneRepoConfigSecrets_def withSecrets_def appendSecrets_eq map_idI)

lemma prepare_spec:
  "preparePipelineYAML y request sourceRepo content = Inr out \<Longrightarrow>
   \<exists>cfg. Unmarshal y content = Inr cfg \<and>
     Marshal y (withSecrets (map sr_Name (Secrets request)) cfg) = Inr out"
  by (auto simp: preparePipelineYAML_def createDroneRepoConfig_def droneRepoConfigSecrets_eq
      split: sum.splits)

lemma list_all2_weaken:
  "list_all2 P xs ys \<Longrightarrow> (\<And>x y. P x y \<Longrightarrow> Q x y) \<Longrightarrow> list_all2 Q xs ys"
  by (erule list_all2_mono) blast


text \<open>
  C8. When the loop returns entries, they are the archive's file entries in order, the
  directory entries left out, and each entry's path is the file's name without its first
  segment and the slash after it: the name is \<open>X/path\<close> for a segment \<open>X\<close> free of
  slashes. So under one wrapper folder \<open>X/\<close> every name is \<open>X/\<close> followed by the
  produced path.
\<close>

theorem content_strips_first_segment:
  assumes "treeEntries y request sourceRepo files = Ok es"
  shows "list_all2
           (\<lambda>zf e. \<not> zf_IsDir zf \<and>
              (\<exists>X. CHR ''/'' \<notin> set X \<and> zf_Name zf = X @ ''/'' @ te_Path e))
           (filter (\<lambda>zf. \<not> zf_IsDir zf) files) es"
proof -
  have m: "list_all2 (materialized y request sourceRepo) (fileEntries files) es"
    using assms by (rule treeEntries_Ok)
  have dirs: "list_all2 (\<lambda>zf e. \<not> zf_IsDir zf) (fileEntries files) es"
  proof -
    have len: "length (fileEntries files) = length es" using m by (rule list_all2_lengthD)
    have "\<forall>zf\<in>set (fileEntries files). \<not> zf_IsDir zf" by (simp add: fileEntries_def)
    then show ?thesis using len by (simp add: list_all2_conv_all_nth)
  qed
  have seg: "\<exists>X. CHR ''/'' \<notin> set X \<and> zf_Name zf = X @ ''/'' @ te_Path e"
    if "materialized y request sourceRepo zf e" for zf e
  proof -
    from that have s: "CHR ''/'' \<in> set (zf_Name zf)"
      and p: "te_Path e = afterFirstSlash (zf_Name zf)"
      by (simp_all add: materialized_def)
    let ?X = "takeWhile (\<lambda>x. x \<noteq> CHR ''/'') (zf_Name zf)"
    have "CHR ''/'' \<notin> set ?X" by (auto dest: set_takeWhileD)
    moreover have "zf_Name zf = ?X @ ''/'' @ te_Path e"
      using name_split [OF s] p by simp
    ultimately show ?thesis by blast
  qed
  have "list_all2 (\<lambda>zf e. \<exists>X. CHR ''/'' \<notin> set X \<and> zf_Name zf = X @ ''/'' @ te_Path e)
          (fileEntries files) es"
    using m seg by (rule list_all2_weaken)
  with dirs show ?thesis
    by (simp add: list_all2_conv_all_nth fileEntries_def)
qed

theorem content_strips_first_segment_witness:
  "treeEntries toy_yaml ex_request ex_sourceRepo ex_archive =
     Ok [blob ''a/b.txt'' ''hello'', blob ''README.md'' ''# readme''] \<and>
   list_all2
     (\<lambda>zf e. \<not> zf_IsDir zf \<and> (\<exists>X. CHR ''/'' \<notin> set X \<and> zf_Name zf = X @ ''/'' @ te_Path e))
     (filter (\<lambda>zf. \<not> zf_IsDir zf) ex_archive)
     [blob ''a/b.txt'' ''hello'', blob ''README.md'' ''# readme'']"
proof -
  have run: "treeEntries toy_yaml ex_request ex_sourceRepo ex_archive =
               Ok [blob ''a/b.txt'' ''hello'', blob ''README.md'' ''# readme'']"
    by (simp add: treeEntries_def ex_archive_def ex_file_def ex_dir_def
        PipelineYAMLPath_def numeral_2_eq_2)
  from content_strips_first_segment [OF run] run show ?thesis by simp
qed

text \<open>
  C10. The two-way split of a name has two pieces when the name has a slash and one piece
  otherwise, so index 1 is in range exactly for names with a slash. If every file entry's
  name has a slash the loop never panics. If the loop reaches a readable file entry whose
  name has no slash, it panics with the index out of range.
\<close>

theorem split_index_in_bounds:
  "length (SplitN name (CHR ''/'') 2) = (if CHR ''/'' \<in> set name then 2 else 1) \<and>
   ((\<forall>zf\<in>set files. \<not> zf_IsDir zf \<longrightarrow> CHR ''/'' \<in> set (zf_Name zf)) \<longrightarrow>
      (\<forall>s. treeEntries y request sourceRepo files \<noteq> Panic s)) \<and>
   (contentLoop y request sourceRepo pre [] = Ok acc \<and> \<not> zf_IsDir zf \<and>
      zf_Read zf = Inr content \<and> CHR ''/'' \<notin> set (zf_Name zf) \<longrightarrow>
      treeEntries y request sourceRepo (pre @ zf # post) = Panic ''index out of range [1]'')"
proof -
  have a: "length (SplitN name (CHR ''/'') 2) = (if CHR ''/'' \<in> set name then 2 else 1)"
    by (simp add: numeral_2_eq_2)
  have b: "\<forall>s. treeEntries y request sourceRepo files \<noteq> Panic s"
    if "\<forall>zf\<in>set files. \<not> zf_IsDir zf \<longrightarrow> CHR ''/'' \<in> set (zf_Name zf)"
    using contentLoop_no_panic [OF that] by (simp add: treeEntries_def)
  have c: "treeEntries y request sourceRepo (pre @ zf # post) =
             Panic ''index out of range [1]''"
    if "contentLoop y request sourceRepo pre [] = Ok acc" "\<not> zf_IsDir zf"
      "zf_Read zf = Inr content" "CHR ''/'' \<notin> set (zf_Name zf)"
    using that by (simp add: treeEntries_def contentLoop_append SplitN_2_no_slash)
  show ?thesis using a b c by blast
qed

theorem split_index_in_bounds_witness:
  "length (SplitN ''X/a/b.txt'' (CHR ''/'') 2) = 2 \<and>
   length (SplitN ''README.md'' (CHR ''/'') 2) = 1 \<and>
   treeEntries toy_yaml ex_request ex_sourceRepo ex_archive =
     Ok [blob ''a/b.txt'' ''hello'', blob ''README.md'' ''# readme''] \<and>
   treeEntries toy_yaml ex_request ex_sourceRepo
     (ex_archive @ ex_file ''README.md'' ''top'' # [ex_file ''X/late'' ''x'']) =
     Panic ''index out of range [1]''"
proof -
  have slashes: "\<forall>zf\<in>set ex_archive. \<not> zf_IsDir zf \<longrightarrow> CHR ''/'' \<in> set (zf_Name zf)"
    by (simp add: ex_archive_def ex_file_def ex_dir_def)
  have pre: "contentLoop toy_yaml ex_request ex_sourceRepo ex_archive [] =
               Ok [blob ''a/b.txt'' ''hello'', blob ''README.md'' ''# readme'']"
    by (simp add: ex_archive_def ex_file_def ex_dir_def PipelineYAMLPath_def numeral_2_eq_2)
  have top: "\<not> zf_IsDir (ex_file ''README.md'' ''top'')"
    "zf_Read (ex_file ''README.md'' ''top'') = Inr ''top''"
    "CHR ''/'' \<notin> set (zf_Name (ex_file ''README.md'' ''top''))"
    by (simp_all add: ex_file_def)
  note t1 = split_index_in_bounds [where name = "''X/a/b.txt''" and files = ex_archive
      and y = toy_yaml and request = ex_request and sourceRepo = ex_sourceRepo
      and pre = ex_archive and zf = "ex_file ''README.md'' ''top''" and content = "''top''"
      and acc = "[blob ''a/b.txt'' ''hello'', blob ''README.md'' ''# readme'']"
      and post = "[ex_file ''X/late'' ''x'']"]
  note t2 = split_index_in_bounds [where name = "''README.md''" and files = "[]"
      and pre = "[]" and zf = "ex_dir []"]
  have l1: "length (SplitN ''X/a/b.txt'' (CHR ''/'') 2) = 2" using t1 by simp
  have l2: "length (SplitN ''README.md'' (CHR ''/'') 2) = 1" using t2 by simp
  have p: "treeEntries toy_yaml ex_request ex_sourceRepo
     (ex_archive @ ex_file ''README.md'' ''top'' # [ex_file ''X/late'' ''x'']) =
     Panic ''index out of range [1]''"
    using t1 pre top by simp
  have np: "\<forall>s. treeEntries toy_yaml ex_request ex_sourceRepo ex_archive \<noteq> Panic s"
    using t1 slashes by simp
  have ok: "treeEntries toy_yaml ex_request ex_sourceRepo ex_archive =
     Ok [blob ''a/b.txt'' ''hello'', blob ''README.md'' ''# readme'']"
    using pre by (simp add: treeEntries_def)
  show ?thesis using l1 l2 ok p by simp
qed




text \<open>
  C1 (as stated, refuted). With a secret in the request, the file at
  \<^verbatim>\<open>.banzaicloud/pipeline.yaml\<close> comes out with the bytes it has in the archive, although
  rewriting would have changed them.
\<close>

theorem pipeline_yaml_verbatim_counterexample:
  "Secrets ex_request \<noteq> [] \<and>
   afterFirstSlash ''X/.banzaicloud/pipeline.yaml'' = PipelineYAMLPath \<and>
   treeEntries toy_yaml ex_request ex_sourceRepo
     [ex_file ''X/.banzaicloud/pipeline.yaml'' ''build''] =
     Ok [blob ''.banzaicloud/pipeline.yaml'' ''build''] \<and>
   preparePipelineYAML toy_yaml ex_request ex_sourceRepo ''build'' =
     Inr ''build secrets: DB_PASS''"
  by (simp add: treeEntries_def ex_file_def PipelineYAMLPath_def numeral_2_eq_2
      ex_request_def afterFirstSlash_def preparePipelineYAML_def createDroneRepoConfig_def
      droneRepoConfigSecrets_def toy_yaml_def)

text \<open>
  C1 (amended). The path the loop rewrites is \<^verbatim>\<open>.banzaicloud/pipeline.yamldisabled\<close>, not
  the descriptor path: the rewriting is switched off. For every request and archive on
  which the loop returns, an entry at any other path, the one at
  \<^verbatim>\<open>.banzaicloud/pipeline.yaml\<close> among them, has the bytes of its file in the archive; an
  entry at the rewritten path has the file's document parsed, the name of every secret of
  the request appended to the secrets of every step, and the document serialized again.
\<close>

theorem only_disabled_path_rewritten:
  assumes "treeEntries y request sourceRepo files = Ok es"
  shows "list_all2
           (\<lambda>zf e. te_Path e = afterFirstSlash (zf_Name zf) \<and>
              (if te_Path e = PipelineYAMLPath @ ''disabled'' then
                 (\<exists>content cfg. zf_Read zf = Inr content \<and> Unmarshal y content = Inr cfg \<and>
                    Marshal y (withSecrets (map sr_Name (Secrets request)) cfg) =
                      Inr (te_Content e))
               else zf_Read zf = Inr (te_Content e)))
           (fileEntries files) es \<and>
         (\<forall>i<length es. te_Path (es ! i) = PipelineYAMLPath \<longrightarrow>
            zf_Read (fileEntries files ! i) = Inr (te_Content (es ! i)))"
proof -
  let ?R = "\<lambda>zf e. te_Path e = afterFirstSlash (zf_Name zf) \<and>
              (if te_Path e = PipelineYAMLPath @ ''disabled'' then
                 (\<exists>content cfg. zf_Read zf = Inr content \<and> Unmarshal y content = Inr cfg \<and>
                    Marshal y (withSecrets (map sr_Name (Secrets request)) cfg) =
                      Inr (te_Content e))
               else zf_Read zf = Inr (te_Content e))"
  have m: "list_all2 (materialized y request sourceRepo) (fileEntries files) es"
    using assms by (rule treeEntries_Ok)
  have step: "?R zf e" if "materialized y request sourceRepo zf e" for zf e
  proof (cases "te_Path e = PipelineYAMLPath @ ''disabled''")
    case True
    with that obtain content where c: "zf_Read zf = Inr content"
      "preparePipelineYAML y request sourceRepo content = Inr (te_Content e)"
      by (auto simp: materialized_def)
    from prepare_spec [OF c(2)] c(1) True that show ?thesis
      by (auto simp: materialized_def)
  next
    case False
    with that show ?thesis by (simp add: materialized_def)
  qed
  have all: "list_all2 ?R (fileEntries files) es"
    using m step by (rule list_all2_weaken)
  have "zf_Read (fileEntries files ! i) = Inr (te_Content (es ! i))"
    if "i < length es" "te_Path (es ! i) = PipelineYAMLPath" for i
  proof -
    from all that(1) have "?R (fileEntries files ! i) (es ! i)"
      by (rule list_all2_nthD2)
    moreover have "te_Path (es ! i) \<noteq> PipelineYAMLPath @ ''disabled''"
      using that(2) by simp
    ultimately show ?thesis by simp
  qed
  with all show ?thesis by blast
qed

theorem only_disabled_path_rewritten_witness:
  "treeEntries toy_yaml ex_request ex_sourceRepo ex_pipeline_archive =
     Ok [blob ''.banzaicloud/pipeline.yaml'' ''build'',
         blob ''.banzaicloud/pipeline.yamldisabled'' ''build secrets: DB_PASS'',
         blob ''main.go'' ''package main''] \<and>
   fileEntries ex_pipeline_archive =
     [ex_file ''X/.banzaicloud/pipeline.yaml'' ''build'',
      ex_file ''X/.banzaicloud/pipeline.yamldisabled'' ''build'',
      ex_file ''X/main.go'' ''package main''] \<and>
   zf_Read (fileEntries ex_pipeline_archive ! 0) = Inr ''build''"
proof -
  have run: "treeEntries toy_yaml ex_request ex_sourceRepo ex_pipeline_archive =
     Ok [blob ''.banzaicloud/pipeline.yaml'' ''build'',
         blob ''.banzaicloud/pipeline.yamldisabled'' ''build secrets: DB_PASS'',
         blob ''main.go'' ''package main'']"
    by (simp add: treeEntries_def ex_pipeline_archive_def ex_file_def ex_dir_def
        PipelineYAMLPath_def numeral_2_eq_2 ex_request_def preparePipelineYAML_def
        createDroneRepoConfig_def droneRepoConfigSecrets_def toy_yaml_def)
  have fe: "fileEntries ex_pipeline_archive =
     [ex_file ''X/.banzaicloud/pipeline.yaml'' ''build'',
      ex_file ''X/.banzaicloud/pipeline.yamldisabled'' ''build'',
      ex_file ''X/main.go'' ''package main'']"
    by (simp add: fileEntries_def ex_pipeline_archive_def ex_file_def ex_dir_def)
  have p0: "te_Path ([blob ''.banzaicloud/pipeline.yaml'' ''build'',
         blob ''.banzaicloud/pipeline.yamldisabled'' ''build secrets: DB_PASS'',
         blob ''main.go'' ''package main''] ! 0) = PipelineYAMLPath"
    by (simp add: blob_def PipelineYAMLPath_def)
  from only_disabled_path_rewritten [OF run] have
    "\<forall>i<3. te_Path ([blob ''.banzaicloud/pipeline.yaml'' ''build'',
         blob ''.banzaicloud/pipeline.yamldisabled'' ''build secrets: DB_PASS'',
         blob ''main.go'' ''package main''] ! i) = PipelineYAMLPath \<longrightarrow>
       zf_Read (fileEntries ex_pipeline_archive ! i) =
         Inr (te_Content ([blob ''.banzaicloud/pipeline.yaml'' ''build'',
         blob ''.banzaicloud/pipeline.yamldisabled'' ''build secrets: DB_PASS'',
         blob ''main.go'' ''package main''] ! i))"
    by simp
  then have "zf_Read (fileEntries ex_pipeline_archive ! 0) =
         Inr (te_Content ([blob ''.banzaicloud/pipeline.yaml'' ''build'',
         blob ''.banzaicloud/pipeline.yamldisabled'' ''build secrets: DB_PASS'',
         blob ''main.go'' ''package main''] ! 0))"
    using p0 by (metis zero_less_numeral)
  then have z: "zf_Read (fileEntries ex_pipeline_archive ! 0) = Inr ''build''"
    by (simp add: blob_def)
  from run fe z show ?thesis by simp
qed

section \<open>Properties of the scraper\<close>

lemma where_scrape:
  "where_struct (scrapeModel n raw) r \<longleftrightarrow>
     (n = [] \<or> repo_Name r = n) \<and> repo_SpotguideRaw r = Some raw \<and> repo_DeletedAt r = None"
  by (auto simp: where_struct_def scrapeModel_def zero_Repo_def)

lemma assign_scrape:
  assumes "where_struct (scrapeModel n raw) r"
  shows "assign_struct (scrapeModel n raw) r = r"
proof -
  from assms have "(n = [] \<or> repo_Name r = n) \<and> repo_SpotguideRaw r = Some raw"
    by (simp add: where_scrape)
  then show ?thesis
    by (cases r) (auto simp: assign_struct_def scrapeModel_def zero_Repo_def)
qed

lemma updated_scrape:
  "where_struct (scrapeModel n raw) r \<Longrightarrow>
   SpotguideRecord (updated now (scrapeModel n raw) r) = SpotguideRecord r"
  by (simp add: updated_def assign_scrape SpotguideRecord_def)

lemma AfterFind_scrape:
  "where_struct (scrapeModel n raw) r \<Longrightarrow> AfterFind unmarshal r = unmarshal raw"
  by (simp add: where_scrape AfterFind_def)

lemma ids_of_records: "map repo_ID rows = map fst (map SpotguideRecord rows)"
  by (simp add: SpotguideRecord_def)

lemma distinct_cong:
  "map SpotguideRecord rows = map SpotguideRecord rows' \<Longrightarrow>
   distinct (map repo_ID rows) = distinct (map repo_ID rows')"
  by (simp only: ids_of_records)

lemma covered_records:
  "covered n raw rows \<longleftrightarrow>
   (\<exists>t\<in>set (map SpotguideRecord rows).
      case t of (i, c, d, nm, ic, rw) \<Rightarrow> (n = [] \<or> nm = n) \<and> rw = Some raw \<and> d = None)"
  by (auto simp: covered_def where_scrape SpotguideRecord_def)

lemma covered_cong:
  "map SpotguideRecord rows = map SpotguideRecord rows' \<Longrightarrow>
   covered n raw rows = covered n raw rows'"
  by (simp only: covered_records)

lemma next_ID_fresh: "r \<in> set rows \<Longrightarrow> repo_ID r < next_ID rows"
proof -
  have "\<And>a. fold max xs a \<ge> a \<and> (\<forall>x\<in>set xs. x \<le> fold max xs a)" for xs :: "nat list"
  proof (induction xs)
    case Nil
    show ?case by simp
  next
    case (Cons x xs)
    from Cons [of "max x a"] show ?case by (auto simp: max_def split: if_splits)
  qed
  then have "\<forall>x\<in>set (map repo_ID rows). x \<le> fold max (map repo_ID rows) 0" by blast
  then show "r \<in> set rows \<Longrightarrow> repo_ID r < next_ID rows"
    by (auto simp: next_ID_def less_Suc_eq_le)
qed

text \<open>The row of least key among the matching ones, when some row matches.\<close>

lemma covered_least:
  assumes "covered n raw rows"
  obtains found where
    "least_by repo_ID (filter (where_struct (scrapeModel n raw)) rows) = Some found"
    "found \<in> set rows" "where_struct (scrapeModel n raw) found"
proof -
  let ?M = "scrapeModel n raw"
  from assms have "filter (where_struct ?M) rows \<noteq> []"
    by (auto simp: covered_def filter_empty_conv)
  then obtain found where l: "least_by repo_ID (filter (where_struct ?M) rows) = Some found"
    using least_by_None [of repo_ID "filter (where_struct ?M) rows"]
    by (cases "least_by repo_ID (filter (where_struct ?M) rows)") auto
  from least_by_mem [OF l] have "found \<in> set rows" "where_struct ?M found" by auto
  with l that show thesis by blast
qed

lemma update_keeps_records:
  assumes d: "distinct (map repo_ID rows)"
    and f: "found \<in> set rows" "where_struct (scrapeModel n raw) found"
  shows "map SpotguideRecord
           (map (\<lambda>r. if repo_ID r = repo_ID found then updated now (scrapeModel n raw) r else r)
              rows) = map SpotguideRecord rows"
proof -
  have same: "r = found" if "r \<in> set rows" "repo_ID r = repo_ID found" for r
    using d f(1) that by (meson distinct_map inj_onD)
  have "SpotguideRecord
          (if repo_ID r = repo_ID found then updated now (scrapeModel n raw) r else r) =
        SpotguideRecord r"
    if "r \<in> set rows" for r
    using same [OF that] f(2) updated_scrape by auto
  then show ?thesis by (simp add: comp_def cong: map_cong)
qed

text \<open>
  One upsert of the scraper's model on a table that already has a matching row: the hook
  runs on the row found, its error is returned if it has one, and the records stay.
\<close>

lemma upsert_found:
  assumes f: "fault (scrapeModel n raw) = None"
    and u: "unmarshal raw \<noteq> Some ErrRecordNotFound"
    and d: "distinct (map repo_ID rows)"
    and c: "covered n raw rows"
  shows "\<exists>rows'. FirstOrCreate unmarshal fault now (scrapeModel n raw) (scrapeModel n raw) rows =
                    (unmarshal raw, rows') \<and>
           map SpotguideRecord rows' = map SpotguideRecord rows"
proof -
  let ?M = "scrapeModel n raw"
  from c obtain found where l: "least_by repo_ID (filter (where_struct ?M) rows) = Some found"
    and fm: "found \<in> set rows" "where_struct ?M found"
    by (rule covered_least)
  have hook: "AfterFind unmarshal found = unmarshal raw"
    using fm(2) by (rule AfterFind_scrape)
  show ?thesis
  proof (cases "unmarshal raw")
    case None
    with f l hook have "FirstOrCreate unmarshal fault now ?M ?M rows =
        (None, map (\<lambda>r. if repo_ID r = repo_ID found then updated now ?M r else r) rows)"
      by (simp add: FirstOrCreate_def Where_First_def)
    with None update_keeps_records [OF d fm] show ?thesis by simp
  next
    case (Some err)
    with u have "err \<noteq> ErrRecordNotFound" by auto
    with Some f l hook have "FirstOrCreate unmarshal fault now ?M ?M rows = (Some err, rows)"
      by (simp add: FirstOrCreate_def Where_First_def IsRecordNotFoundError_def)
    with Some show ?thesis by simp
  qed
qed

text \<open>The ways an upsert of the scraper's model can end.\<close>

lemma upsert_cases:
  assumes "FirstOrCreate unmarshal fault now (scrapeModel n raw) (scrapeModel n raw) rows = (e, rows')"
  shows "(e = None \<and>
            rows' = rows @ [created now rows (assign_struct (scrapeModel n raw)
                              (assign_struct (scrapeModel n raw) zero_Repo))]) \<or>
         (e = None \<and> (\<exists>found. found \<in> set rows \<and> where_struct (scrapeModel n raw) found \<and>
            rows' = map (\<lambda>r. if repo_ID r = repo_ID found
                              then updated now (scrapeModel n raw) r else r) rows)) \<or>
         (rows' = rows \<and> e = fault (scrapeModel n raw) \<and> e \<noteq> None) \<or>
         (rows' = rows \<and> fault (scrapeModel n raw) = None \<and> covered n raw rows \<and>
            e = unmarshal raw \<and> e \<noteq> None)"
proof -
  let ?M = "scrapeModel n raw"
  show ?thesis
  proof (cases "fault ?M")
    case (Some err)
    with assms show ?thesis
      by (auto simp: FirstOrCreate_def Where_First_def split: if_splits)
  next
    case None
    show ?thesis
    proof (cases "least_by repo_ID (filter (where_struct ?M) rows)")
      case N: None
      with None assms show ?thesis
        by (auto simp: FirstOrCreate_def Where_First_def IsRecordNotFoundError_def)
    next
      case (Some found)
      from least_by_mem [OF Some] have fm: "found \<in> set rows" "where_struct ?M found" by auto
      then have cov: "covered n raw rows" by (auto simp: covered_def)
      have hook: "AfterFind unmarshal found = unmarshal raw"
        using fm(2) by (rule AfterFind_scrape)
      show ?thesis
      proof (cases "unmarshal raw")
        case U: None
        with None Some hook assms fm show ?thesis
          by (auto simp: FirstOrCreate_def Where_First_def)
      next
        case U: (Some err)
        with None Some hook assms cov show ?thesis
          by (auto simp: FirstOrCreate_def Where_First_def split: if_splits)
      qed
    qed
  qed
qed

lemma upsert_error:
  assumes "FirstOrCreate unmarshal fault now (scrapeModel n raw) (scrapeModel n raw) rows =
             (Some err, rows')"
  shows "rows' = rows \<and>
         (fault (scrapeModel n raw) = Some err \<or>
          fault (scrapeModel n raw) = None \<and> covered n raw rows \<and> unmarshal raw = Some err)"
  using upsert_cases [OF assms] by auto

lemma upsert_result:
  assumes r: "FirstOrCreate unmarshal fault now (scrapeModel n raw) (scrapeModel n raw) rows =
                (None, rows')"
    and d: "distinct (map repo_ID rows)"
  shows "covered n raw rows' \<and> distinct (map repo_ID rows') \<and>
         (\<forall>n' raw'. covered n' raw' rows \<longrightarrow> covered n' raw' rows')"
proof -
  let ?M = "scrapeModel n raw"
  let ?new = "created now rows (assign_struct ?M (assign_struct ?M zero_Repo))"
  from upsert_cases [OF r] consider
    (ins) "rows' = rows @ [?new]"
    | (upd) found where "found \<in> set rows" "where_struct ?M found"
        "rows' = map (\<lambda>r. if repo_ID r = repo_ID found then updated now ?M r else r) rows"
    by auto
  then show ?thesis
  proof cases
    case ins
    have idn: "repo_ID ?new = next_ID rows"
      by (simp add: created_def assign_struct_def scrapeModel_def zero_Repo_def)
    have w: "where_struct ?M ?new"
      unfolding where_scrape
      by (simp add: created_def assign_struct_def scrapeModel_def zero_Repo_def)
    have "repo_ID ?new \<notin> set (map repo_ID rows)"
    proof
      assume "repo_ID ?new \<in> set (map repo_ID rows)"
      then obtain x where x: "x \<in> set rows" "repo_ID x = repo_ID ?new" by auto
      from next_ID_fresh [OF x(1)] x(2) idn show False by simp
    qed
    with d ins have "distinct (map repo_ID rows')" by simp
    moreover from w ins have "covered n raw rows'" by (auto simp: covered_def)
    moreover have "\<forall>n' raw'. covered n' raw' rows \<longrightarrow> covered n' raw' rows'"
      using ins by (auto simp: covered_def)
    ultimately show ?thesis by blast
  next
    case upd
    from update_keeps_records [OF d upd(1,2), of now] upd(3)
    have s: "map SpotguideRecord rows' = map SpotguideRecord rows" by simp
    from upd(1,2) have "covered n raw rows" by (auto simp: covered_def)
    with d show ?thesis
      using covered_cong [OF s] distinct_cong [OF s] by simp
  qed
qed

lemma fault_error:
  assumes "fault m = Some err" "err \<noteq> ErrRecordNotFound"
  shows "FirstOrCreate unmarshal fault now m m rows = (Some err, rows)"
  using assms by (simp add: FirstOrCreate_def Where_First_def IsRecordNotFoundError_def)

lemma topicLoop_step:
  assumes run: "topicLoop up unmarshal fault now repository topics rows = (e, rowsA)"
    and d: "distinct (map repo_ID rows)"
    and hf: "\<forall>m. fault m \<noteq> Some ErrRecordNotFound"
    and hu: "\<forall>raw. unmarshal raw \<noteq> Some ErrRecordNotFound"
  shows "distinct (map repo_ID rowsA) \<and>
         (\<forall>n raw. covered n raw rows \<longrightarrow> covered n raw rowsA) \<and>
         (\<forall>rows2. distinct (map repo_ID rows2) \<and>
              (\<forall>n raw. covered n raw rowsA \<longrightarrow> covered n raw rows2) \<longrightarrow>
            (\<exists>e' rows3. topicLoop up unmarshal fault now' repository topics rows2 = (e', rows3) \<and>
               map SpotguideRecord rows3 = map SpotguideRecord rows2 \<and>
               (e' = e \<or> (\<exists>raw err. unmarshal raw = Some err \<and> e' = Some err))))"
  using run
proof (induction topics)
  case Nil
  with d show ?case by auto
next
  case (Cons topic topics)
  show ?case
  proof (cases "topic = SpotguideGithubTopic")
    case False
    with Cons show ?thesis by simp
  next
    case True
    show ?thesis
    proof (cases "DownloadContents up (gr_Owner_Login repository) (gr_Name repository)
                    SpotguideYAMLPath")
      case (Inl err)
      with True Cons.prems d show ?thesis by auto
    next
      case (Inr raw)
      let ?n = "gr_FullName repository"
      let ?M = "scrapeModel ?n raw"
      from Cons.prems True Inr have
        one: "FirstOrCreate unmarshal fault now ?M ?M rows = (e, rowsA)" by (simp add: Let_def)
      have two: "topicLoop up unmarshal fault now' repository (topic # topics) rows2 =
                   FirstOrCreate unmarshal fault now' ?M ?M rows2" for rows2
        using True Inr by (simp add: Let_def)
      show ?thesis
      proof (cases "fault ?M")
        case (Some err)
        with hf have ne: "err \<noteq> ErrRecordNotFound" by auto
        note fe = fault_error [where fault = fault and m = ?M and unmarshal = unmarshal,
            OF Some ne]
        from fe one have st: "e = Some err" "rowsA = rows" by auto
        from fe two have
          "topicLoop up unmarshal fault now' repository (topic # topics) rows2 = (e, rows2)"
          for rows2 using st by simp
        with st d show ?thesis by auto
      next
        case None
        have props: "covered ?n raw rowsA \<and> distinct (map repo_ID rowsA) \<and>
                     (\<forall>n' raw'. covered n' raw' rows \<longrightarrow> covered n' raw' rowsA) \<and>
                     (e \<noteq> None \<longrightarrow> e = unmarshal raw)"
        proof (cases e)
          case N: None
          with upsert_result [OF one [unfolded N] d] show ?thesis by simp
        next
          case (Some err)
          from upsert_error [OF one [unfolded Some]] None Some d show ?thesis by auto
        qed
        have "\<exists>e' rows3. topicLoop up unmarshal fault now' repository (topic # topics) rows2 =
                 (e', rows3) \<and>
               map SpotguideRecord rows3 = map SpotguideRecord rows2 \<and>
               (e' = e \<or> (\<exists>raw err. unmarshal raw = Some err \<and> e' = Some err))"
          if d2: "distinct (map repo_ID rows2)"
            and c2: "\<forall>n raw. covered n raw rowsA \<longrightarrow> covered n raw rows2"
          for rows2
        proof -
          from c2 props have cov: "covered ?n raw rows2" by blast
          from hu have u: "unmarshal raw \<noteq> Some ErrRecordNotFound" by simp
          from upsert_found [where fault = fault and now = now' and unmarshal = unmarshal
              and raw = raw and n = ?n, OF None u d2 cov]
          obtain rows3 where
            r: "FirstOrCreate unmarshal fault now' ?M ?M rows2 = (unmarshal raw, rows3)"
            and s: "map SpotguideRecord rows3 = map SpotguideRecord rows2" by blast
          have "unmarshal raw = e \<or> (\<exists>raw' err. unmarshal raw' = Some err \<and> unmarshal raw = Some err)"
          proof (cases "unmarshal raw")
            case N: None
            with props show ?thesis by (cases e) auto
          next
            case (Some err)
            then show ?thesis by blast
          qed
          with r s two show ?thesis by auto
        qed
        with props show ?thesis by blast
      qed
    qed
  qed
qed

lemma repositoryLoop_rerun:
  assumes run: "repositoryLoop up unmarshal fault now repos rows = (e, rows1)"
    and d: "distinct (map repo_ID rows)"
    and hf: "\<forall>m. fault m \<noteq> Some ErrRecordNotFound"
    and hu: "\<forall>raw. unmarshal raw \<noteq> Some ErrRecordNotFound"
  shows "distinct (map repo_ID rows1) \<and>
         (\<forall>n raw. covered n raw rows \<longrightarrow> covered n raw rows1) \<and>
         (\<forall>rows2. distinct (map repo_ID rows2) \<and>
              (\<forall>n raw. covered n raw rows1 \<longrightarrow> covered n raw rows2) \<longrightarrow>
            (\<exists>e' rows3. repositoryLoop up unmarshal fault now' repos rows2 = (e', rows3) \<and>
               map SpotguideRecord rows3 = map SpotguideRecord rows2 \<and>
               (e' = e \<or> (\<exists>raw err. unmarshal raw = Some err \<and> e' = Some err))))"
  using run d
proof (induction repos arbitrary: rows)
  case Nil
  then show ?case by auto
next
  case (Cons repo rest)
  obtain e0 rowsA where
    t: "topicLoop up unmarshal fault now repo (gr_Topics repo) rows = (e0, rowsA)"
    by (cases "topicLoop up unmarshal fault now repo (gr_Topics repo) rows") auto
  note ts = topicLoop_step [where now' = now', OF t Cons.prems(2) hf hu]
  from ts have dA: "distinct (map repo_ID rowsA)"
    and cA: "\<forall>n raw. covered n raw rows \<longrightarrow> covered n raw rowsA"
    and again: "\<And>rows2. distinct (map repo_ID rows2) \<Longrightarrow>
          \<forall>n raw. covered n raw rowsA \<longrightarrow> covered n raw rows2 \<Longrightarrow>
          \<exists>e' rows3. topicLoop up unmarshal fault now' repo (gr_Topics repo) rows2 = (e', rows3) \<and>
               map SpotguideRecord rows3 = map SpotguideRecord rows2 \<and>
               (e' = e0 \<or> (\<exists>raw err. unmarshal raw = Some err \<and> e' = Some err))"
    by blast+
  have first: "distinct (map repo_ID rows1) \<and>
        (\<forall>n raw. covered n raw rowsA \<longrightarrow> covered n raw rows1) \<and>
        (e0 \<noteq> None \<longrightarrow> e = e0) \<and>
        (e0 = None \<longrightarrow> repositoryLoop up unmarshal fault now rest rowsA = (e, rows1))"
  proof (cases e0)
    case None
    with t Cons.prems(1) have r: "repositoryLoop up unmarshal fault now rest rowsA = (e, rows1)"
      by simp
    from Cons.IH [OF r dA] None r show ?thesis by blast
  next
    case (Some err)
    with t Cons.prems(1) have "e = Some err" "rows1 = rowsA" by auto
    with Some dA show ?thesis by simp
  qed
  have "\<exists>e' rows3. repositoryLoop up unmarshal fault now' (repo # rest) rows2 = (e', rows3) \<and>
               map SpotguideRecord rows3 = map SpotguideRecord rows2 \<and>
               (e' = e \<or> (\<exists>raw err. unmarshal raw = Some err \<and> e' = Some err))"
    if d2: "distinct (map repo_ID rows2)"
      and c2: "\<forall>n raw. covered n raw rows1 \<longrightarrow> covered n raw rows2"
    for rows2
  proof -
    from first c2 have "\<forall>n raw. covered n raw rowsA \<longrightarrow> covered n raw rows2" by blast
    from again [OF d2 this] obtain e0' rows2' where
      s: "topicLoop up unmarshal fault now' repo (gr_Topics repo) rows2 = (e0', rows2')"
      and r: "map SpotguideRecord rows2' = map SpotguideRecord rows2"
      and rel: "e0' = e0 \<or> (\<exists>raw err. unmarshal raw = Some err \<and> e0' = Some err)" by blast
    show ?thesis
    proof (cases e0')
      case (Some err)
      with s have "repositoryLoop up unmarshal fault now' (repo # rest) rows2 = (e0', rows2')"
        by simp
      moreover from rel Some first have
        "e0' = e \<or> (\<exists>raw err. unmarshal raw = Some err \<and> e0' = Some err)" by auto
      ultimately show ?thesis using r by blast
    next
      case None
      with rel have e0: "e0 = None" by auto
      with first have rr: "repositoryLoop up unmarshal fault now rest rowsA = (e, rows1)" by simp
      from Cons.IH [OF rr dA] have again_rest: "\<And>rows2. distinct (map repo_ID rows2) \<Longrightarrow>
          \<forall>n raw. covered n raw rows1 \<longrightarrow> covered n raw rows2 \<Longrightarrow>
          \<exists>e' rows3. repositoryLoop up unmarshal fault now' rest rows2 = (e', rows3) \<and>
               map SpotguideRecord rows3 = map SpotguideRecord rows2 \<and>
               (e' = e \<or> (\<exists>raw err. unmarshal raw = Some err \<and> e' = Some err))"
        by blast
      from d2 have d2': "distinct (map repo_ID rows2')" using distinct_cong [OF r] by simp
      from c2 have c2': "\<forall>n raw. covered n raw rows1 \<longrightarrow> covered n raw rows2'"
        using covered_cong [OF r] by simp
      from again_rest [OF d2' c2'] obtain e' rows3 where
        "repositoryLoop up unmarshal fault now' rest rows2' = (e', rows3)"
        "map SpotguideRecord rows3 = map SpotguideRecord rows2'"
        "e' = e \<or> (\<exists>raw err. unmarshal raw = Some err \<and> e' = Some err)" by blast
      with s r None show ?thesis by auto
    qed
  qed
  with first cA show ?case by blast
qed

text \<open>
  A second run keeps the records, and returns the error value of the first run or the
  error of the hook on a row it finds.
\<close>

lemma rescrape_records_and_error:
  assumes "ScrapeSpotguides up unmarshal fault now rows = Some (e, rows')"
    and "distinct (map repo_ID rows)"
    and "\<forall>m. fault m \<noteq> Some ErrRecordNotFound"
    and "\<forall>raw. unmarshal raw \<noteq> Some ErrRecordNotFound"
  shows "\<exists>e' rows''. ScrapeSpotguides up unmarshal fault now' rows' = Some (e', rows'') \<and>
           map SpotguideRecord rows'' = map SpotguideRecord rows' \<and>
           (e' = e \<or> (\<exists>raw err. unmarshal raw = Some err \<and> e' = Some err))"
proof (cases "listRepositories (ListByOrg up SpotguideGithubOrganization) 0 []")
  case None
  with assms(1) show ?thesis by (simp add: ScrapeSpotguides_def)
next
  case (Some l)
  show ?thesis
  proof (cases l)
    case (Inl err)
    with Some assms(1) show ?thesis by (auto simp: ScrapeSpotguides_def)
  next
    case (Inr repos)
    with Some assms(1) have run: "repositoryLoop up unmarshal fault now repos rows = (e, rows')"
      by (simp add: ScrapeSpotguides_def)
    from repositoryLoop_rerun [where now' = now', OF run assms(2,3,4)]
    have d1: "distinct (map repo_ID rows')"
      and again: "\<And>rows2. distinct (map repo_ID rows2) \<Longrightarrow>
          \<forall>n raw. covered n raw rows' \<longrightarrow> covered n raw rows2 \<Longrightarrow>
          \<exists>e' rows3. repositoryLoop up unmarshal fault now' repos rows2 = (e', rows3) \<and>
               map SpotguideRecord rows3 = map SpotguideRecord rows2 \<and>
               (e' = e \<or> (\<exists>raw err. unmarshal raw = Some err \<and> e' = Some err))"
      by blast+
    from again [OF d1] obtain e' rows'' where
      "repositoryLoop up unmarshal fault now' repos rows' = (e', rows'')"
      "map SpotguideRecord rows'' = map SpotguideRecord rows'"
      "e' = e \<or> (\<exists>raw err. unmarshal raw = Some err \<and> e' = Some err)" by blast
    with Some Inr show ?thesis by (simp add: ScrapeSpotguides_def)
  qed
qed

text \<open>
  C6. Take a run of the scraper that returns, from a table with distinct primary keys, and
  run it again against the same upstream: the same listing, the same file contents, the
  same decoder and the same database faults, at any later clock (a driver or decoder error
  is never the library's own record-not-found value). The second run returns too, and
  leaves every row of the table as the first run left it in every column but
  \<^verbatim>\<open>UpdatedAt\<close>: the same rows, with the same keys, names, icons and manifest bytes, and no
  row added. It finds a row for every model the first run upserted, so it inserts nothing;
  the library sets \<^verbatim>\<open>UpdatedAt\<close> on each row it updates. The second run need not return
  the error value of the first: a manifest the decoder rejects is inserted by the first
  run without decoding, and stops the second run at the hook \<^verbatim>\<open>AfterFind\<close>, before
  anything is written.
\<close>

theorem rescrape_idempotent:
  assumes "ScrapeSpotguides up unmarshal fault now rows = Some (e, rows')"
    and "distinct (map repo_ID rows)"
    and "\<forall>m. fault m \<noteq> Some ErrRecordNotFound"
    and "\<forall>raw. unmarshal raw \<noteq> Some ErrRecordNotFound"
  shows "\<exists>e' rows''. ScrapeSpotguides up unmarshal fault now' rows' = Some (e', rows'') \<and>
           map SpotguideRecord rows'' = map SpotguideRecord rows'"
  using rescrape_records_and_error [where now' = now', OF assms] by blast

lemma ex_list:
  "listRepositories (ListByOrg (ex_upstream m) SpotguideGithubOrganization) 0 [] =
     Some (Inr [\<lparr>gr_Owner_Login = ''banzaicloud'', gr_Name = ''docs'',
                  gr_FullName = ''banzaicloud/docs'', gr_Topics = [''documentation'']\<rparr>,
                \<lparr>gr_Owner_Login = ''banzaicloud'', gr_Name = ''sg'',
                  gr_FullName = ''banzaicloud/sg'', gr_Topics = [''nodejs'', ''spotguide'']\<rparr>])"
  by (simp add: listRepositories.simps ex_upstream_def)

lemma ex_first_run:
  "ScrapeSpotguides (ex_upstream ''new'') unmarshal (\<lambda>m. None) 5 [ex_catalog_row 1 1 ''old''] =
     Some (None, [ex_catalog_row 1 1 ''old'', ex_catalog_row 2 5 ''new''])"
  unfolding ScrapeSpotguides_def ex_list
  by (simp add: SpotguideGithubTopic_def SpotguideYAMLPath_def ex_upstream_def
      FirstOrCreate_def Where_First_def IsRecordNotFoundError_def scrapeModel_def zero_Repo_def
      where_struct_def ex_catalog_row_def assign_struct_def created_def next_ID_def)

lemma ex_second_run_rejected:
  "ScrapeSpotguides (ex_upstream ''new'') ex_unmarshal (\<lambda>m. None) 9
     [ex_catalog_row 1 1 ''old'', ex_catalog_row 2 5 ''new''] =
     Some (Some (External ''yaml: unmarshal errors''),
           [ex_catalog_row 1 1 ''old'', ex_catalog_row 2 5 ''new''])"
  unfolding ScrapeSpotguides_def ex_list
  by (simp add: SpotguideGithubTopic_def SpotguideYAMLPath_def ex_upstream_def
      FirstOrCreate_def Where_First_def IsRecordNotFoundError_def scrapeModel_def zero_Repo_def
      where_struct_def ex_catalog_row_def AfterFind_def ex_unmarshal_def)

lemma ex_second_run_accepted:
  "ScrapeSpotguides (ex_upstream ''new'') (\<lambda>raw. None) (\<lambda>m. None) 9
     [ex_catalog_row 1 1 ''old'', ex_catalog_row 2 5 ''new''] =
     Some (None, [ex_catalog_row 1 1 ''old'', (ex_catalog_row 2 5 ''new'')\<lparr>repo_UpdatedAt := 9\<rparr>])"
  unfolding ScrapeSpotguides_def ex_list
  by (simp add: SpotguideGithubTopic_def SpotguideYAMLPath_def ex_upstream_def
      FirstOrCreate_def Where_First_def IsRecordNotFoundError_def scrapeModel_def zero_Repo_def
      where_struct_def ex_catalog_row_def AfterFind_def assign_struct_def updated_def)

theorem rescrape_idempotent_witness:
  "ScrapeSpotguides (ex_upstream ''new'') ex_unmarshal (\<lambda>m. None) 5 [ex_catalog_row 1 1 ''old''] =
     Some (None, [ex_catalog_row 1 1 ''old'', ex_catalog_row 2 5 ''new'']) \<and>
   distinct (map repo_ID [ex_catalog_row 1 1 ''old'']) \<and>
   (\<exists>e' rows''. ScrapeSpotguides (ex_upstream ''new'') ex_unmarshal (\<lambda>m. None) 9
               [ex_catalog_row 1 1 ''old'', ex_catalog_row 2 5 ''new''] = Some (e', rows'') \<and>
      map SpotguideRecord rows'' =
        map SpotguideRecord [ex_catalog_row 1 1 ''old'', ex_catalog_row 2 5 ''new'']) \<and>
   ScrapeSpotguides (ex_upstream ''new'') ex_unmarshal (\<lambda>m. None) 9
     [ex_catalog_row 1 1 ''old'', ex_catalog_row 2 5 ''new''] =
     Some (Some (External ''yaml: unmarshal errors''),
           [ex_catalog_row 1 1 ''old'', ex_catalog_row 2 5 ''new'']) \<and>
   ScrapeSpotguides (ex_upstream ''new'') (\<lambda>raw. None) (\<lambda>m. None) 9
     [ex_catalog_row 1 1 ''old'', ex_catalog_row 2 5 ''new''] =
     Some (None, [ex_catalog_row 1 1 ''old'', (ex_catalog_row 2 5 ''new'')\<lparr>repo_UpdatedAt := 9\<rparr>])"
proof -
  have d: "distinct (map repo_ID [ex_catalog_row 1 1 ''old''])" by simp
  have hf: "\<forall>m::Repo. (\<lambda>m. None :: error option) m \<noteq> Some ErrRecordNotFound" by simp
  have hu: "\<forall>raw. ex_unmarshal raw \<noteq> Some ErrRecordNotFound"
    by (simp add: ex_unmarshal_def)
  note first = ex_first_run [where unmarshal = ex_unmarshal]
  from rescrape_idempotent [OF first d hf hu, where now' = 9]
  have again: "\<exists>e' rows''. ScrapeSpotguides (ex_upstream ''new'') ex_unmarshal (\<lambda>m. None) 9
               [ex_catalog_row 1 1 ''old'', ex_catalog_row 2 5 ''new''] = Some (e', rows'') \<and>
      map SpotguideRecord rows'' =
        map SpotguideRecord [ex_catalog_row 1 1 ''old'', ex_catalog_row 2 5 ''new'']" .
  from first d again ex_second_run_rejected ex_second_run_accepted show ?thesis by blast
qed

text \<open>
  C5 (the code at the failing input). The table holds a record named
  \<^verbatim>\<open>banzaicloud/sg\<close> with manifest bytes \<^verbatim>\<open>old\<close>; the repository of that name carries
  the template topic and its manifest now reads \<^verbatim>\<open>new\<close>. The scraper's condition is the
  whole model, name and bytes, so the record is not matched: it keeps its bytes, and a
  second record of the same name is created. No row is found, so the hook does not run,
  and this holds for every decoder.
\<close>

theorem scrape_same_name_new_bytes:
  "ScrapeSpotguides (ex_upstream ''new'') unmarshal (\<lambda>m. None) 5 [ex_catalog_row 1 1 ''old''] =
     Some (None, [ex_catalog_row 1 1 ''old'', ex_catalog_row 2 5 ''new'']) \<and>
   repo_Name (ex_catalog_row 1 1 ''old'') = repo_Name (ex_catalog_row 2 5 ''new'') \<and>
   repo_SpotguideRaw (ex_catalog_row 1 1 ''old'') = Some ''old''"
  using ex_first_run by (simp add: ex_catalog_row_def)

section \<open>Properties of the launch pipeline\<close>

lemma createSecretsLoop_all:
  "createSecretsLoop store orgID repoTag secrets s = (None, s') \<Longrightarrow>
   s' = storedAll store orgID repoTag secrets s"
proof (induction secrets arbitrary: s)
  case Nil
  then show ?case by (simp add: storedAll_def)
next
  case (Cons secretRequest secrets)
  let ?tagged = "secretRequest\<lparr>sr_Tags := sr_Tags secretRequest @ [repoTag]\<rparr>"
  obtain r s1 where st: "store orgID ?tagged s = (r, s1)"
    by (cases "store orgID ?tagged s") auto
  with Cons.prems obtain secretID where "r = Inr secretID"
    by (cases r) (auto simp: Let_def)
  with st Cons.prems have "createSecretsLoop store orgID repoTag secrets s1 = (None, s')"
    by (simp add: Let_def)
  from Cons.IH [OF this] st show ?case by (simp add: storedAll_def)
qed

text \<open>
  C2. When the template is found, \<open>createSecrets\<close> succeeds and \<open>createGithubRepo\<close>
  then fails with an error, \<open>LaunchSpotguide\<close> returns that error wrapped as the failure
  of the repository step (not success, not a secrets error), and the secret store is left
  in the state \<open>createSecrets\<close> produced: the state after one \<open>Store\<close> call for every
  secret of the request, tagged with the destination repository. No later step of the
  pipeline calls the secret store, so nothing stored is deleted; the CI service is not
  reached.
\<close>

theorem repository_failure_keeps_secrets:
  assumes "GetSpotguide sv (w_catalog w) (SpotguideName request) = Inr sourceRepo"
    and "createSecrets sv request orgID userID (w_secrets w) = (None, s')"
    and "createGithubRepo sv request userID sourceRepo (w_github w) = (Err err, g')"
  shows "LaunchSpotguide sv request httpRequest orgID userID w =
           (Err (Wrap err ''Failed to create GitHub repository''),
            w\<lparr>w_secrets := s', w_github := g'\<rparr>) \<and>
         w_secrets (snd (LaunchSpotguide sv request httpRequest orgID userID w)) =
           storedAll (secret_Store sv) orgID (''repo:'' @ RepoFullname request)
             (Secrets request) (w_secrets w) \<and>
         w_drone (snd (LaunchSpotguide sv request httpRequest orgID userID w)) = w_drone w"
proof -
  have run: "LaunchSpotguide sv request httpRequest orgID userID w =
           (Err (Wrap err ''Failed to create GitHub repository''),
            w\<lparr>w_secrets := s', w_github := g'\<rparr>)"
    using assms by (simp add: LaunchSpotguide_def)
  have "s' = storedAll (secret_Store sv) orgID (''repo:'' @ RepoFullname request)
               (Secrets request) (w_secrets w)"
    using assms(2) unfolding createSecrets_def by (rule createSecretsLoop_all)
  with run show ?thesis by simp
qed

theorem repository_failure_keeps_secrets_witness:
  "GetSpotguide ex_services (w_catalog ex_world) (SpotguideName ex_request) = Inr ex_sourceRepo \<and>
   createSecrets ex_services ex_request 1 42 (w_secrets ex_world) =
     (None, [(1, \<lparr>sr_Name = ''DB_PASS'', sr_Type = ''password'', sr_Values = [],
                  sr_Tags = [''repo:acme/proj1'']\<rparr>)]) \<and>
   createGithubRepo ex_services ex_request 42 ex_sourceRepo (w_github ex_world) =
     (Err (Wrap (External ''422 name already exists on this account'')
             ''failed to create spotguide repository''), [''acme/proj1'']) \<and>
   LaunchSpotguide ex_services ex_request ''Authorization: Bearer t'' 1 42 ex_world =
     (Err (Wrap (Wrap (External ''422 name already exists on this account'')
                   ''failed to create spotguide repository'')
             ''Failed to create GitHub repository''),
      ex_world\<lparr>w_secrets := [(1, \<lparr>sr_Name = ''DB_PASS'', sr_Type = ''password'', sr_Values = [],
                                   sr_Tags = [''repo:acme/proj1'']\<rparr>)],
               w_github := [''acme/proj1'']\<rparr>)"
proof -
  have a: "GetSpotguide ex_services (w_catalog ex_world) (SpotguideName ex_request) =
             Inr ex_sourceRepo"
    by (simp add: GetSpotguide_def ex_services_def ex_world_def ex_request_def
        ex_sourceRepo_def AfterFind_def)
  have b: "createSecrets ex_services ex_request 1 42 (w_secrets ex_world) =
     (None, [(1, \<lparr>sr_Name = ''DB_PASS'', sr_Type = ''password'', sr_Values = [],
                  sr_Tags = [''repo:acme/proj1'']\<rparr>)])"
    by (simp add: createSecrets_def ex_services_def ex_world_def ex_request_def
        RepoFullname_def)
  have c: "createGithubRepo ex_services ex_request 42 ex_sourceRepo (w_github ex_world) =
     (Err (Wrap (External ''422 name already exists on this account'')
             ''failed to create spotguide repository''), [''acme/proj1''])"
    by (simp add: createGithubRepo_def getUserGithubToken_def ex_services_def ex_world_def
        ex_request_def)
  from repository_failure_keeps_secrets [OF a b c] a b c show ?thesis by simp
qed

end
